theory Spec2Isabelle
  imports Main "HOL-Library.List_Lexorder" "HOL-Library.Char_ord"
begin

section \<open>Python values used by build\_docs.py\<close>

text \<open>
  The exceptions that the modelled part of \<^verbatim>\<open>build_docs.py\<close> can raise.  All of them are
  subclasses of Python's \<^verbatim>\<open>Exception\<close>; \<^verbatim>\<open>FileNotFoundError\<close>, \<^verbatim>\<open>NotADirectoryError\<close> and
  \<^verbatim>\<open>PermissionError\<close> are subclasses of \<^verbatim>\<open>OSError\<close>.  A function that may raise returns
  \<open>py_exn + 'a\<close>, with \<open>Inl\<close> for the raised exception.
\<close>

datatype py_exn =
    CalledProcessError
  | AssertionError
  | IndexError
  | ValueError
  | AttributeError
  | KeyError
  | FileNotFoundError
  | NotADirectoryError
  | PermissionError
  | OSError

text \<open>A list comprehension over a function that may raise: the first exception wins.\<close>

fun map_result :: "('a \<Rightarrow> py_exn + 'b) \<Rightarrow> 'a list \<Rightarrow> py_exn + 'b list" where
  "map_result f [] = Inr []"
| "map_result f (x # xs) =
     (case f x of
        Inl e \<Rightarrow> Inl e
      | Inr y \<Rightarrow> (case map_result f xs of Inl e \<Rightarrow> Inl e | Inr ys \<Rightarrow> Inr (y # ys)))"

text \<open>Python list indexing \<^verbatim>\<open>xs[i]\<close>: a negative index counts from the end, an index out of
  range raises \<^verbatim>\<open>IndexError\<close>.\<close>

definition py_index :: "'a list \<Rightarrow> int \<Rightarrow> py_exn + 'a" where
  "py_index xs i =
     (if 0 \<le> i \<and> i < int (length xs) then Inr (xs ! nat i)
      else if i < 0 \<and> - int (length xs) \<le> i then Inr (xs ! nat (int (length xs) + i))
      else Inl IndexError)"

subsection \<open>Strings\<close>

text \<open>Strings are ASCII byte strings.  \<^verbatim>\<open>s.split(c)\<close> for a one-character separator \<open>c\<close>:
  the result is never empty, and \<^verbatim>\<open>"".split(c) == [""]\<close>.\<close>

fun split_on :: "char \<Rightarrow> string \<Rightarrow> string list" where
  "split_on c [] = [[]]"
| "split_on c (x # xs) =
     (if x = c then [] # split_on c xs
      else (case split_on c xs of
              [] \<Rightarrow> [[x]]
            | y # ys \<Rightarrow> (x # y) # ys))"

text \<open>\<^verbatim>\<open>sep.join(parts)\<close>.\<close>

fun join :: "string \<Rightarrow> string list \<Rightarrow> string" where
  "join sep [] = []"
| "join sep [x] = x"
| "join sep (x # y # ys) = x @ sep @ join sep (y # ys)"

text \<open>\<^verbatim>\<open>s.upper()\<close> on ASCII text: the letters a..z are mapped to A..Z, every other
  character is kept.\<close>

definition upper_char :: "char \<Rightarrow> char" where
  "upper_char c =
     (if CHR ''a'' \<le> c \<and> c \<le> CHR ''z'' then char_of (of_char c - (32 :: nat)) else c)"

definition upper :: "string \<Rightarrow> string" where
  "upper s = map upper_char s"

subsection \<open>Integers and their decimal text\<close>

definition is_digit :: "char \<Rightarrow> bool" where
  "is_digit c = (CHR ''0'' \<le> c \<and> c \<le> CHR ''9'')"

definition digit_val :: "char \<Rightarrow> nat" where
  "digit_val c = of_char c - 48"

definition digit_char :: "nat \<Rightarrow> char" where
  "digit_char d = char_of (48 + d)"

text \<open>The characters that \<^verbatim>\<open>int()\<close> strips from both ends of an ASCII argument: tab, line
  feed, vertical tab, form feed, carriage return and the space.\<close>

definition is_space :: "char \<Rightarrow> bool" where
  "is_space c = (let n = (of_char c :: nat) in (9 \<le> n \<and> n \<le> 13) \<or> n = 32)"

definition strip :: "string \<Rightarrow> string" where
  "strip s = rev (dropWhile is_space (rev (dropWhile is_space s)))"

text \<open>The digits of a decimal literal may be grouped by single underscores, which stand
  between two digits only.\<close>

fun underscores_ok :: "string \<Rightarrow> bool" where
  "underscores_ok [] = True"
| "underscores_ok [c] = is_digit c"
| "underscores_ok (c # d # cs) =
     (if is_digit c then underscores_ok (d # cs)
      else c = CHR ''_'' \<and> is_digit d \<and> underscores_ok (d # cs))"

definition decimal_body :: "string \<Rightarrow> bool" where
  "decimal_body s = (s \<noteq> [] \<and> is_digit (hd s) \<and> underscores_ok s)"

definition decimal_value :: "string \<Rightarrow> nat" where
  "decimal_value s = foldl (\<lambda>acc c. 10 * acc + digit_val c) 0 (filter is_digit s)"

text \<open>\<^verbatim>\<open>int(s)\<close> for a string \<open>s\<close>, base ten: surrounding whitespace is dropped, one sign is
  allowed, leading zeros are allowed; anything else raises \<^verbatim>\<open>ValueError\<close>.\<close>

definition py_int :: "string \<Rightarrow> py_exn + int" where
  "py_int s =
     (let t = strip s;
          neg = (t \<noteq> [] \<and> hd t = CHR ''-'');
          body = (if t \<noteq> [] \<and> (hd t = CHR ''-'' \<or> hd t = CHR ''+'') then tl t else t)
      in if decimal_body body
         then Inr (if neg then - int (decimal_value body) else int (decimal_value body))
         else Inl ValueError)"

text \<open>\<^verbatim>\<open>str(n)\<close> for an integer.\<close>

fun str_nat :: "nat \<Rightarrow> string" where
  "str_nat n = (if n < 10 then [digit_char n] else str_nat (n div 10) @ [digit_char (n mod 10)])"

declare str_nat.simps [simp del]

definition py_str :: "int \<Rightarrow> string" where
  "py_str i = (if i < 0 then CHR ''-'' # str_nat (nat (- i)) else str_nat (nat i))"

section \<open>The tag transform: pep\_545\_tag\_to\_gettext\_tag\<close>

text \<open>
  \<^verbatim>\<open>
  def pep_545_tag_to_gettext_tag(tag):
      if "-" not in tag:
          return tag
      language, region = tag.split("-")
      return language + "_" + region.upper()
  \<close>
  Unpacking the split into two names raises \<^verbatim>\<open>ValueError\<close> unless it has exactly two parts.
\<close>

definition pep_545_tag_to_gettext_tag :: "string \<Rightarrow> py_exn + string" where
  "pep_545_tag_to_gettext_tag tag =
     (if CHR ''-'' \<notin> set tag then Inr tag
      else (case split_on (CHR ''-'') tag of
              [language, region] \<Rightarrow> Inr (language @ ''_'' @ upper region)
            | _ \<Rightarrow> Inl ValueError))"

section \<open>The version matcher: locate\_nearest\_version\<close>

text \<open>
  \<^verbatim>\<open>bisect.bisect_left(a, x)\<close> of the standard library, with its default bounds
  \<open>lo = 0\<close> and \<open>hi = len(a)\<close>:
  \<^verbatim>\<open>
      while lo < hi:
          mid = (lo + hi) // 2
          if a[mid] < x: lo = mid + 1
          else: hi = mid
      return lo
  \<close>
\<close>

function bisect_left :: "'a::linorder list \<Rightarrow> 'a \<Rightarrow> nat \<Rightarrow> nat \<Rightarrow> nat" where
  "bisect_left a x lo hi =
     (if lo < hi
      then (let mid = (lo + hi) div 2
            in if a ! mid < x then bisect_left a x (mid + 1) hi else bisect_left a x lo mid)
      else lo)"
  by pat_completeness auto
termination
  by (relation "measure (\<lambda>(a, x, lo, hi). hi - lo)") auto

declare bisect_left.simps [simp del]

definition bisect :: "'a::linorder list \<Rightarrow> 'a \<Rightarrow> nat" where
  "bisect a x = bisect_left a x 0 (length a)"

text \<open>
  \<^verbatim>\<open>
  def version_to_tuple(version):
      return tuple(int(part) for part in version.split("."))

  def tuple_to_version(version_tuple):
      return ".".join(str(part) for part in version_tuple)
  \<close>
  Tuples of integers are lists of integers; Python compares them lexicographically, as
  the order on lists does.
\<close>

definition version_to_tuple :: "string \<Rightarrow> py_exn + int list" where
  "version_to_tuple version = map_result py_int (split_on (CHR ''.'') version)"

definition tuple_to_version :: "int list \<Rightarrow> string" where
  "tuple_to_version version_tuple = join ''.'' (map py_str version_tuple)"

text \<open>
  \<^verbatim>\<open>
      available_versions_tuples = [
          version_to_tuple(available_version) for available_version in available_versions
      ]
      target_version_tuple = version_to_tuple(target_version)
      try:
          found = available_versions_tuples[
              bisect(available_versions_tuples, target_version_tuple)
          ]
      except IndexError:
          found = available_versions_tuples[-1]
      return tuple_to_version(found)
  \<close>
\<close>

definition locate_nearest_version :: "string list \<Rightarrow> string \<Rightarrow> py_exn + string" where
  "locate_nearest_version available_versions target_version =
     (case map_result version_to_tuple available_versions of
        Inl e \<Rightarrow> Inl e
      | Inr available_versions_tuples \<Rightarrow>
          (case version_to_tuple target_version of
             Inl e \<Rightarrow> Inl e
           | Inr target_version_tuple \<Rightarrow>
               (case py_index available_versions_tuples
                       (int (bisect available_versions_tuples target_version_tuple)) of
                  Inr found \<Rightarrow> Inr (tuple_to_version found)
                | Inl IndexError \<Rightarrow>
                    (case py_index available_versions_tuples (- 1) of
                       Inl e \<Rightarrow> Inl e
                     | Inr found \<Rightarrow> Inr (tuple_to_version found))
                | Inl e \<Rightarrow> Inl e)))"

text \<open>
  The vocabulary of the claim about \<open>locate_nearest_version\<close>.  A \<open>major.minor\<close> version
  string is the decimal text of two natural numbers joined by a dot, each written as
  \<^verbatim>\<open>str\<close> prints it (no sign, no leading zero).  The integer-tuple value of a version
  string is what \<open>version_to_tuple\<close> returns for it.
\<close>

definition canonical_nat :: "string \<Rightarrow> bool" where
  "canonical_nat s = (s \<noteq> [] \<and> list_all is_digit s \<and> (length s = 1 \<or> hd s \<noteq> CHR ''0''))"

definition is_major_minor :: "string \<Rightarrow> bool" where
  "is_major_minor v =
     (case split_on (CHR ''.'') v of
        [major, minor] \<Rightarrow> canonical_nat major \<and> canonical_nat minor
      | _ \<Rightarrow> False)"

definition version_key :: "string \<Rightarrow> int list" where
  "version_key v = (case version_to_tuple v of Inr t \<Rightarrow> t | Inl e \<Rightarrow> [])"

section \<open>Directory trees and changed\_files\<close>

text \<open>
  A directory tree as \<^verbatim>\<open>filecmp.dircmp\<close> sees it: a regular file has its content and its
  modification time (an abstract time stamp), a directory has named entries.  An entry
  is looked up with \<open>map_of\<close>.
\<close>

datatype node = File string int | Dir "(string \<times> node) list"

text \<open>\<^verbatim>\<open>dircmp\<close> leaves out the names of \<^verbatim>\<open>filecmp.DEFAULT_IGNORES\<close> and of its \<^verbatim>\<open>hide\<close> list
  (phase 0), and sorts what is left.\<close>

definition ignored_names :: "string list" where
  "ignored_names =
     [''.'', ''..'', ''RCS'', ''CVS'', ''tags'', ''.git'', ''.hg'', ''.bzr'', ''_darcs'', ''__pycache__'']"

definition listing :: "(string \<times> node) list \<Rightarrow> string list" where
  "listing es = sort (remdups (filter (\<lambda>n. n \<notin> set ignored_names) (map fst es)))"

text \<open>Phase 1: the names in both listings, in the order of the left one.\<close>

definition common :: "(string \<times> node) list \<Rightarrow> (string \<times> node) list \<Rightarrow> string list" where
  "common l r = filter (\<lambda>x. x \<in> set (listing r)) (listing l)"

text \<open>\<^verbatim>\<open>filecmp.cmp(f1, f2, shallow=True)\<close> on two regular files: equal signatures (size and
  modification time) count as equal without reading the files; otherwise the sizes and
  then the contents are compared.\<close>

definition files_differ :: "string \<Rightarrow> int \<Rightarrow> string \<Rightarrow> int \<Rightarrow> bool" where
  "files_differ c1 m1 c2 m2 = (\<not> (length c1 = length c2 \<and> m1 = m2) \<and> c1 \<noteq> c2)"

text \<open>Phases 2 and 3: the common names that are regular files on both sides and differ
  (\<^verbatim>\<open>diff_files\<close>), and those that are directories on both sides (\<^verbatim>\<open>common_dirs\<close>, the keys
  of \<^verbatim>\<open>subdirs\<close>).\<close>

definition diff_files :: "(string \<times> node) list \<Rightarrow> (string \<times> node) list \<Rightarrow> string list" where
  "diff_files l r =
     filter (\<lambda>x. case (map_of l x, map_of r x) of
                   (Some (File c1 m1), Some (File c2 m2)) \<Rightarrow> files_differ c1 m1 c2 m2
                 | _ \<Rightarrow> False)
       (common l r)"

definition common_dirs :: "(string \<times> node) list \<Rightarrow> (string \<times> node) list \<Rightarrow> string list" where
  "common_dirs l r =
     filter (\<lambda>x. case (map_of l x, map_of r x) of
                   (Some (Dir l'), Some (Dir r')) \<Rightarrow> True
                 | _ \<Rightarrow> False)
       (common l r)"

text \<open>
  \<^verbatim>\<open>
      def traverse(dircmp_result):
          base = pathlib.Path(dircmp_result.left).relative_to(left)
          changed.extend(str(base / file) for file in dircmp_result.diff_files)
          for dircomp in dircmp_result.subdirs.values():
              traverse(dircomp)
  \<close>
  \<open>base\<close> is the list of directory names from \<^verbatim>\<open>left\<close> down to the directory compared.
\<close>

function traverse :: "string list \<Rightarrow> node \<Rightarrow> node \<Rightarrow> string list" where
  "traverse base (Dir l) (Dir r) =
     map (\<lambda>file. join ''/'' (base @ [file])) (diff_files l r) @
     concat (map (\<lambda>x. case (map_of l x, map_of r x) of
                        (Some nl, Some nr) \<Rightarrow> traverse (base @ [x]) nl nr
                      | _ \<Rightarrow> [])
              (common_dirs l r))"
| "traverse base (File c m) r = []"
| "traverse base (Dir l) (File c m) = []"
  by pat_completeness auto
termination
proof -
  have entry: "Some n = map_of es y \<Longrightarrow> size n < Suc (size_list (size_prod (\<lambda>_. 0) size) es)"
    for es :: "(string \<times> node) list" and y n
    by (induction es) (auto split: if_splits)
  show ?thesis
    by (relation "measure (\<lambda>(base, l, r). size l)") (auto dest: entry)
qed

text \<open>
  \<^verbatim>\<open>
  def changed_files(left, right):
      changed = []
      ...
      traverse(filecmp.dircmp(left, right))
      return changed
  \<close>
  The arguments are what stands at the two paths; listing a path that does not exist or
  is not a directory raises.
\<close>

definition changed_files :: "node option \<Rightarrow> node option \<Rightarrow> py_exn + string list" where
  "changed_files left right =
     (case left of
        None \<Rightarrow> Inl FileNotFoundError
      | Some (File c m) \<Rightarrow> Inl NotADirectoryError
      | Some (Dir l) \<Rightarrow>
          (case right of
             None \<Rightarrow> Inl FileNotFoundError
           | Some (File c m) \<Rightarrow> Inl NotADirectoryError
           | Some (Dir r) \<Rightarrow> Inr (traverse [] (Dir l) (Dir r))))"

text \<open>The node at a relative path of a tree, as \<^verbatim>\<open>dircmp\<close> walks it (ignored names are not
  entered).\<close>

fun node_at :: "node \<Rightarrow> string list \<Rightarrow> node option" where
  "node_at n [] = Some n"
| "node_at (File c m) (x # xs) = None"
| "node_at (Dir es) (x # xs) =
     (if x \<in> set ignored_names then None
      else (case map_of es x of None \<Rightarrow> None | Some n \<Rightarrow> node_at n xs))"

section \<open>Commands, the file system and the log: the environment of the script\<close>

text \<open>
  What the script does to its environment is recorded as a list of events, oldest
  first.  The environment answers from the events so far: the exit status and output of
  a command, whether a path is a directory, whether an operation on the file system
  fails, whether a log file can be opened and written.  Nothing is assumed about these
  answers.  Calls of \<^verbatim>\<open>logging\<close> and reports to Sentry are events that always succeed; the
  text of a message is not rendered, an event holds the format string and the arguments.
\<close>

datatype level = DEBUG | INFO | WARNING | ERROR

datatype command = Argv "string list" | Shell string

text \<open>Why the operating system refuses to start a program or to open a file, and the
  exception that Python raises for it: \<^verbatim>\<open>OSError\<close> or one of its subclasses.\<close>

datatype os_error = NoSuchFile | NotDirectory | AccessDenied | OtherFailure

fun os_exn :: "os_error \<Rightarrow> py_exn" where
  "os_exn NoSuchFile = FileNotFoundError"
| "os_exn NotDirectory = NotADirectoryError"
| "os_exn AccessDenied = PermissionError"
| "os_exn OtherFailure = OSError"

text \<open>\<^verbatim>\<open>subprocess.check_output\<close> either cannot start the program, or the program exits with
  a status and its combined output.\<close>

datatype proc_result = Exited int string | NotStarted os_error

datatype event =
    Log level string "string list"
  | Run command
  | LogFile string string command bool string
  | SentryCapture py_exn
  | SentryTag string string
  | Rmtree string
  | Makedirs string
  | Chmod string

record world =
  sentry_sdk :: bool
  clock :: "event list \<Rightarrow> string"
  proc :: "event list \<Rightarrow> command \<Rightarrow> proc_result"
  path_isdir :: "event list \<Rightarrow> string \<Rightarrow> bool"
  path_exists :: "event list \<Rightarrow> string \<Rightarrow> bool"
  fs_rmtree :: "event list \<Rightarrow> string \<Rightarrow> py_exn option"
  fs_makedirs :: "event list \<Rightarrow> string \<Rightarrow> bool \<Rightarrow> py_exn option"
  fs_chmod :: "event list \<Rightarrow> string \<Rightarrow> py_exn option"
  fs_append :: "event list \<Rightarrow> string \<Rightarrow> os_error option"
  fs_listdir :: "event list \<Rightarrow> string \<Rightarrow> py_exn + string list"
  fs_tree :: "event list \<Rightarrow> string \<Rightarrow> node option"

text \<open>A statement of the script takes the events so far and returns its value, or the
  exception it raises, with the events extended.\<close>

type_synonym 'a prog = "event list \<Rightarrow> (py_exn + 'a) \<times> event list"

definition ret :: "'a \<Rightarrow> 'a prog" where
  "ret x tr = (Inr x, tr)"

definition raise :: "py_exn \<Rightarrow> 'a prog" where
  "raise e tr = (Inl e, tr)"

definition bnd :: "'a prog \<Rightarrow> ('a \<Rightarrow> 'b prog) \<Rightarrow> 'b prog" where
  "bnd m f tr = (case m tr of (Inl e, tr') \<Rightarrow> (Inl e, tr') | (Inr x, tr') \<Rightarrow> f x tr')"

definition seq :: "'a prog \<Rightarrow> 'b prog \<Rightarrow> 'b prog" where
  "seq m n = bnd m (\<lambda>_. n)"

definition emit :: "event \<Rightarrow> unit prog" where
  "emit ev tr = (Inr (), tr @ [ev])"

definition observe :: "(event list \<Rightarrow> 'a) \<Rightarrow> 'a prog" where
  "observe q tr = (Inr (q tr), tr)"

definition from_result :: "py_exn + 'a \<Rightarrow> 'a prog" where
  "from_result r = (case r of Inl e \<Rightarrow> raise e | Inr x \<Rightarrow> ret x)"

definition do_if :: "bool \<Rightarrow> unit prog \<Rightarrow> unit prog" where
  "do_if b m = (if b then m else ret ())"

text \<open>\<^verbatim>\<open>try: m except <catches>: handler\<close>.  An exception raised by the handler itself
  propagates.\<close>

definition try_except :: "'a prog \<Rightarrow> (py_exn \<Rightarrow> bool) \<Rightarrow> (py_exn \<Rightarrow> 'a prog) \<Rightarrow> 'a prog" where
  "try_except m catches handler tr =
     (case m tr of
        (Inl e, tr') \<Rightarrow> if catches e then handler e tr' else (Inl e, tr')
      | (Inr x, tr') \<Rightarrow> (Inr x, tr'))"

fun block :: "unit prog list \<Rightarrow> unit prog" where
  "block [] = ret ()"
| "block (m # ms) = seq m (block ms)"


text \<open>\<^verbatim>\<open>os.path.join\<close> (POSIX): an absolute component restarts the path.\<close>

definition path_join2 :: "string \<Rightarrow> string \<Rightarrow> string" where
  "path_join2 path b =
     (if b \<noteq> [] \<and> hd b = CHR ''/'' then b
      else if path = [] \<or> last path = CHR ''/'' then path @ b
      else path @ ''/'' @ b)"

definition path_join :: "string \<Rightarrow> string list \<Rightarrow> string" where
  "path_join a p = foldl path_join2 a p"

text \<open>Operations of \<^verbatim>\<open>os\<close> and \<^verbatim>\<open>shutil\<close> that change the file system and may raise.\<close>

definition os_makedirs :: "world \<Rightarrow> string \<Rightarrow> bool \<Rightarrow> unit prog" where
  "os_makedirs w path exist_ok =
     bnd (observe (\<lambda>tr. fs_makedirs w tr path exist_ok)) (\<lambda>r.
     seq (emit (Makedirs path))
       (case r of None \<Rightarrow> ret () | Some e \<Rightarrow> raise e))"

definition os_chmod :: "world \<Rightarrow> string \<Rightarrow> unit prog" where
  "os_chmod w path =
     bnd (observe (\<lambda>tr. fs_chmod w tr path)) (\<lambda>r.
     seq (emit (Chmod path))
       (case r of None \<Rightarrow> ret () | Some e \<Rightarrow> raise e))"

definition shutil_rmtree :: "world \<Rightarrow> string \<Rightarrow> unit prog" where
  "shutil_rmtree w path =
     bnd (observe (\<lambda>tr. fs_rmtree w tr path)) (\<lambda>r.
     seq (emit (Rmtree path))
       (case r of None \<Rightarrow> ret () | Some e \<Rightarrow> raise e))"

definition os_listdir :: "world \<Rightarrow> string \<Rightarrow> string list prog" where
  "os_listdir w path = bnd (observe (\<lambda>tr. fs_listdir w tr path)) from_result"

section \<open>shell\_out\<close>

text \<open>
  \<^verbatim>\<open>
  def shell_out(cmd, shell=False, logfile=None):
      logging.debug("Running command %r", cmd)
      now = str(datetime.now())
      try:
          output = subprocess.check_output(cmd, shell=shell, stdin=subprocess.PIPE,
              stderr=subprocess.STDOUT, encoding="utf-8", errors="backslashreplace")
          if logfile:
              with open(logfile, "a+") as log:
                  log.write("# " + now + "\n")
                  log.write("# Command {cmd!r} ran successfully:".format(cmd=cmd))
                  log.write(output)
                  log.write("\n\n")
          return output
      except subprocess.CalledProcessError as e:
          if sentry_sdk:
              with sentry_sdk.push_scope() as scope:
                  scope.fingerprint = ["{{ default }}", str(cmd)]
                  sentry_sdk.capture_exception(e)
          if logfile:
              with open(logfile, "a+") as log:
                  log.write("# " + now + "\n")
                  log.write("# Command {cmd!r} failed:".format(cmd=cmd))
                  log.write(e.output)
                  log.write("\n\n")
              logging.error("Command failed (see %s at %s)", logfile, now)
          else:
              logging.error("Command failed with output %r", e.output)
  \<close>
  A command is \<open>Argv\<close> of its words, or \<open>Shell\<close> of a command line when \<^verbatim>\<open>shell=True\<close>.  The
  function returns \<open>Some output\<close>, or \<open>None\<close> where the Python function falls off its end.
  A log file is written when \<^verbatim>\<open>logfile\<close> is a non-empty string.  Opening the log file and
  writing to it may fail; the exception of that is no \<^verbatim>\<open>CalledProcessError\<close> and leaves
  \<open>shell_out\<close>, from the \<^verbatim>\<open>try\<close> block as from the handler.
\<close>

definition words_of :: "command \<Rightarrow> string list" where
  "words_of cmd = (case cmd of Argv ws \<Rightarrow> ws | Shell line \<Rightarrow> [line])"

definition truthy :: "string option \<Rightarrow> bool" where
  "truthy s = (case s of None \<Rightarrow> False | Some t \<Rightarrow> t \<noteq> [])"

definition text_of :: "string option \<Rightarrow> string" where
  "text_of s = (case s of None \<Rightarrow> [] | Some t \<Rightarrow> t)"

text \<open>The \<^verbatim>\<open>with open(logfile, "a+") as log:\<close> block: the four writes are one \<open>LogFile\<close> event
  that holds the time, the command, whether it ran successfully, and its output.\<close>

definition append_to_log ::
  "world \<Rightarrow> string \<Rightarrow> string \<Rightarrow> command \<Rightarrow> bool \<Rightarrow> string \<Rightarrow> unit prog" where
  "append_to_log w logfile now cmd ok output =
     bnd (observe (\<lambda>tr. fs_append w tr logfile)) (\<lambda>r.
       case r of
         None \<Rightarrow> emit (LogFile logfile now cmd ok output)
       | Some err \<Rightarrow> raise (os_exn err))"

definition shell_out :: "world \<Rightarrow> command \<Rightarrow> string option \<Rightarrow> string option prog" where
  "shell_out w cmd logfile =
     seq (emit (Log DEBUG ''Running command %r'' (words_of cmd)))
    (bnd (observe (clock w)) (\<lambda>now.
     bnd (observe (\<lambda>tr. proc w tr cmd)) (\<lambda>res.
     seq (emit (Run cmd))
      (case res of
         NotStarted err \<Rightarrow> raise (os_exn err)
       | Exited returncode output \<Rightarrow>
           if returncode = 0
           then seq (do_if (truthy logfile) (append_to_log w (text_of logfile) now cmd True output))
                  (ret (Some output))
           else seq (do_if (sentry_sdk w) (emit (SentryCapture CalledProcessError)))
                 (seq (if truthy logfile
                       then seq (append_to_log w (text_of logfile) now cmd False output)
                              (emit (Log ERROR ''Command failed (see %s at %s)''
                                       [text_of logfile, now]))
                       else emit (Log ERROR ''Command failed with output %r'' [output]))
                    (ret None))))))"

text \<open>A call of \<open>shell_out\<close> as a statement: the returned value is dropped.\<close>

definition shell_out_stmt :: "world \<Rightarrow> command \<Rightarrow> string option \<Rightarrow> unit prog" where
  "shell_out_stmt w cmd logfile = bnd (shell_out w cmd logfile) (\<lambda>_. ret ())"

section \<open>git\_clone\<close>

text \<open>
  \<^verbatim>\<open>
  def git_clone(repository, directory, branch=None):
      logging.info("Updating repository %s in %s", repository, directory)
      try:
          if not os.path.isdir(os.path.join(directory, ".git")):
              raise AssertionError("Not a git repository.")
          shell_out(["git", "-C", directory, "fetch"])
          if branch:
              shell_out(["git", "-C", directory, "checkout", branch])
              shell_out(["git", "-C", directory, "reset", "--hard", "origin/" + branch])
      except (subprocess.CalledProcessError, AssertionError):
          if os.path.exists(directory):
              shutil.rmtree(directory)
          logging.info("Cloning %s into %s", repository, directory)
          os.makedirs(directory, mode=0o775)
          shell_out(
              ["git", "clone", "--depth=1", "--no-single-branch", repository, directory]
          )
          if branch:
              shell_out(["git", "-C", directory, "checkout", branch])
  \<close>
\<close>

definition git_update :: "world \<Rightarrow> string \<Rightarrow> string option \<Rightarrow> unit prog" where
  "git_update w directory branch =
     bnd (observe (\<lambda>tr. path_isdir w tr (path_join directory [''.git'']))) (\<lambda>is_repo.
     if \<not> is_repo then raise AssertionError
     else seq (shell_out_stmt w (Argv [''git'', ''-C'', directory, ''fetch'']) None)
           (do_if (truthy branch)
              (seq (shell_out_stmt w (Argv [''git'', ''-C'', directory, ''checkout'', text_of branch]) None)
                 (shell_out_stmt w
                    (Argv [''git'', ''-C'', directory, ''reset'', ''--hard'', ''origin/'' @ text_of branch])
                    None))))"

definition git_fresh_clone :: "world \<Rightarrow> string \<Rightarrow> string \<Rightarrow> string option \<Rightarrow> unit prog" where
  "git_fresh_clone w repository directory branch =
     bnd (observe (\<lambda>tr. path_exists w tr directory)) (\<lambda>there.
     block
       [do_if there (shutil_rmtree w directory),
        emit (Log INFO ''Cloning %s into %s'' [repository, directory]),
        os_makedirs w directory False,
        shell_out_stmt w
          (Argv [''git'', ''clone'', ''--depth=1'', ''--no-single-branch'', repository, directory])
          None,
        do_if (truthy branch)
          (shell_out_stmt w (Argv [''git'', ''-C'', directory, ''checkout'', text_of branch]) None)])"

definition git_clone :: "world \<Rightarrow> string \<Rightarrow> string \<Rightarrow> string option \<Rightarrow> unit prog" where
  "git_clone w repository directory branch =
     seq (emit (Log INFO ''Updating repository %s in %s'' [repository, directory]))
       (try_except (git_update w directory branch)
          (\<lambda>e. e = CalledProcessError \<or> e = AssertionError)
          (\<lambda>e. git_fresh_clone w repository directory branch))"

section \<open>translation\_branch\<close>

text \<open>
  \<^verbatim>\<open>re.match(r".*/[0-9]+\.[0-9]+$", branch)\<close> on a line without a newline: the line ends with
  a slash, digits, a dot and digits.  The digits and the dot hold no slash, so the slash
  of the pattern is the last slash of the line.
\<close>

definition all_digits :: "string \<Rightarrow> bool" where
  "all_digits s = (s \<noteq> [] \<and> list_all is_digit s)"

definition matches_version_branch :: "string \<Rightarrow> bool" where
  "matches_version_branch line =
     (let parts = split_on (CHR ''/'') line
      in 2 \<le> length parts \<and>
         (case split_on (CHR ''.'') (last parts) of
            [major, minor] \<Rightarrow> all_digits major \<and> all_digits minor
          | _ \<Rightarrow> False))"

text \<open>
  \<^verbatim>\<open>
  def translation_branch(locale_repo, locale_clone_dir, needed_version):
      git_clone(locale_repo, locale_clone_dir)
      remote_branches = shell_out(["git", "-C", locale_clone_dir, "branch", "-r"])
      branches = []
      for branch in remote_branches.split("\n"):
          if re.match(r".*/[0-9]+\.[0-9]+$", branch):
              branches.append(branch.split("/")[-1])
      return locate_nearest_version(branches, needed_version)
  \<close>
  \<^verbatim>\<open>remote_branches.split\<close> raises \<^verbatim>\<open>AttributeError\<close> when \<open>shell_out\<close> returned \<open>None\<close>.
\<close>

definition numeric_branches :: "string \<Rightarrow> string list" where
  "numeric_branches remote_branches =
     map (\<lambda>branch. last (split_on (CHR ''/'') branch))
       (filter matches_version_branch (split_on (CHR ''\<newline>'') remote_branches))"

definition translation_branch :: "world \<Rightarrow> string \<Rightarrow> string \<Rightarrow> string \<Rightarrow> string prog" where
  "translation_branch w locale_repo locale_clone_dir needed_version =
     seq (git_clone w locale_repo locale_clone_dir None)
    (bnd (shell_out w (Argv [''git'', ''-C'', locale_clone_dir, ''branch'', ''-r'']) None)
       (\<lambda>remote_branches.
          case remote_branches of
            None \<Rightarrow> raise AttributeError
          | Some listing_text \<Rightarrow>
              from_result (locate_nearest_version (numeric_branches listing_text) needed_version)))"

section \<open>build\_one\<close>



definition bs2 :: string where
  "bs2 = [CHR 0x5C, CHR 0x5C]"

definition SPHINXOPTS :: "(string \<times> string list) list" where
  "SPHINXOPTS =
     [(''ja'',
         [''-D latex_engine=platex'',
          ''-D latex_elements.inputenc='',
          ''-D latex_elements.fontenc='']),
      (''ko'',
         [''-D latex_engine=xelatex'',
          ''-D latex_elements.inputenc='',
          ''-D latex_elements.fontenc='',
          ''-D latex_elements.preamble='' @ bs2 @ ''usepackage{kotex}'' @ bs2 @
            ''setmainhangulfont{UnBatang}'' @ bs2 @ ''setsanshangulfont{UnDotum}'' @ bs2 @
            ''setmonohangulfont{UnTaza}'']),
      (''pt-br'',
         [''-D latex_engine=xelatex'',
          ''-D latex_elements.inputenc='',
          ''-D latex_elements.fontenc='']),
      (''fr'',
         [''-D latex_engine=xelatex'',
          ''-D latex_elements.inputenc='',
          ''-D latex_elements.fontenc='' @ bs2 @ ''usepackage{fontspec}'']),
      (''en'',
         [''-D latex_engine=xelatex'',
          ''-D latex_elements.inputenc='',
          ''-D latex_elements.fontenc='']),
      (''zh-cn'',
         [''-D latex_engine=xelatex'',
          ''-D latex_elements.inputenc='',
          ''-D latex_elements.fontenc='' @ bs2 @ ''usepackage{xeCJK}'']),
      (''zh-tw'',
         [''-D latex_engine=xelatex'',
          ''-D latex_elements.inputenc='',
          ''-D latex_elements.fontenc='' @ bs2 @ ''usepackage{xeCJK}'']),
      (''id'',
         [''-D latex_engine=xelatex'',
          ''-D latex_elements.inputenc='',
          ''-D latex_elements.fontenc=''])]"

text \<open>\<^verbatim>\<open>SPHINXOPTS[language].copy()\<close> followed by \<^verbatim>\<open>sphinxopts.extend(["-q"])\<close>; a language that
  is not a key raises \<^verbatim>\<open>KeyError\<close>.\<close>

definition base_sphinxopts :: "string \<Rightarrow> py_exn + string list" where
  "base_sphinxopts language =
     (case map_of SPHINXOPTS language of
        None \<Rightarrow> Inl KeyError
      | Some opts \<Rightarrow> Inr (opts @ [''-q'']))"

text \<open>
  Lines 269 to 287 of \<open>build_one\<close>: for a translation, the catalog tag, the clone of the
  translation repository at the branch that \<open>translation_branch\<close> returns (the argument
  is evaluated before \<open>git_clone\<close> is called), and the extended options.
\<close>

definition translation_setup ::
  "world \<Rightarrow> string \<Rightarrow> string \<Rightarrow> string \<Rightarrow> string list \<Rightarrow> string list prog" where
  "translation_setup w build_root version language sphinxopts =
     (if language \<noteq> ''en''
      then bnd (from_result (pep_545_tag_to_gettext_tag language)) (\<lambda>gettext_language_tag.
           let locale_dirs = path_join build_root [version, ''locale''];
               locale_clone_dir = path_join locale_dirs [gettext_language_tag, ''LC_MESSAGES''];
               locale_repo = ''https://github.com/python/python-docs-'' @ language @ ''.git''
           in bnd (translation_branch w locale_repo locale_clone_dir version) (\<lambda>branch.
              seq (git_clone w locale_repo locale_clone_dir (Some branch))
                (ret (sphinxopts @
                   [''-D locale_dirs='' @ locale_dirs,
                    ''-D language='' @ gettext_language_tag,
                    ''-D gettext_compact=0'']))))
      else ret sphinxopts)"

text \<open>
  \<^verbatim>\<open>
  def build_one(version, git_branch, isdev, quick, venv, build_root, group="docs",
                log_directory="/var/log/docsbuild/", language=None):
      if not language:
          language = "en"
      if sentry_sdk:
          with sentry_sdk.configure_scope() as scope:
              scope.set_tag("version", version)
              scope.set_tag("language", language)
      checkout = os.path.join(build_root, version, "cpython-{lang}".format(lang=language))
      logging.info("Build start for version: %s, language: %s", version, language)
      sphinxopts = SPHINXOPTS[language].copy()
      sphinxopts.extend(["-q"])
      if language != "en":
          ...
      git_clone("https://github.com/python/cpython.git", checkout, git_branch)
      maketarget = (
          "autobuild-" + ("dev" if isdev else "stable") + ("-html" if quick else "")
      )
      logging.info("Running make %s", maketarget)
      logname = "cpython-{lang}-{version}.log".format(lang=language, version=version)
      python = os.path.join(venv, "bin/python")
      sphinxbuild = os.path.join(venv, "bin/sphinx-build")
      blurb = os.path.join(venv, "bin/blurb")
      shell_out(["make", "-C", os.path.join(checkout, "Doc"), "PYTHON=" + python,
                 "SPHINXBUILD=" + sphinxbuild, "BLURB=" + blurb, "VENVDIR=" + venv,
                 "SPHINXOPTS=" + " ".join(sphinxopts), "SPHINXERRORHANDLING=", maketarget],
                logfile=os.path.join(log_directory, logname))
      shell_out(["chgrp", "-R", group, log_directory])
      logging.info("Build done for version: %s, language: %s", version, language)
  \<close>
\<close>

definition maketarget_of :: "bool \<Rightarrow> bool \<Rightarrow> string" where
  "maketarget_of isdev quick =
     ''autobuild-'' @ (if isdev then ''dev'' else ''stable'') @ (if quick then ''-html'' else [])"

definition make_command ::
  "string \<Rightarrow> string \<Rightarrow> string list \<Rightarrow> bool \<Rightarrow> bool \<Rightarrow> command" where
  "make_command checkout venv sphinxopts isdev quick =
     Argv [''make'', ''-C'', path_join checkout [''Doc''],
           ''PYTHON='' @ path_join venv [''bin/python''],
           ''SPHINXBUILD='' @ path_join venv [''bin/sphinx-build''],
           ''BLURB='' @ path_join venv [''bin/blurb''],
           ''VENVDIR='' @ venv,
           ''SPHINXOPTS='' @ join '' '' sphinxopts,
           ''SPHINXERRORHANDLING='',
           maketarget_of isdev quick]"

definition build_one ::
  "world \<Rightarrow> string \<Rightarrow> string \<Rightarrow> bool \<Rightarrow> bool \<Rightarrow> string \<Rightarrow> string \<Rightarrow> string \<Rightarrow> string \<Rightarrow>
   string \<Rightarrow> unit prog" where
  "build_one w version git_branch isdev quick venv build_root grp log_directory language_arg =
     (let language = (if language_arg = [] then ''en'' else language_arg);
          checkout = path_join build_root [version, ''cpython-'' @ language];
          logname = ''cpython-'' @ language @ ''-'' @ version @ ''.log''
      in seq (do_if (sentry_sdk w)
                (seq (emit (SentryTag ''version'' version)) (emit (SentryTag ''language'' language))))
        (seq (emit (Log INFO ''Build start for version: %s, language: %s'' [version, language]))
        (bnd (from_result (base_sphinxopts language)) (\<lambda>sphinxopts_en.
         bnd (translation_setup w build_root version language sphinxopts_en) (\<lambda>sphinxopts.
         block
           [git_clone w ''https://github.com/python/cpython.git'' checkout (Some git_branch),
            emit (Log INFO ''Running make %s'' [maketarget_of isdev quick]),
            shell_out_stmt w (make_command checkout venv sphinxopts isdev quick)
              (Some (path_join log_directory [logname])),
            shell_out_stmt w (Argv [''chgrp'', ''-R'', grp, log_directory]) None,
            emit (Log INFO ''Build done for version: %s, language: %s'' [version, language])])))))"

section \<open>copy\_build\_to\_webroot\<close>

definition exn_name :: "py_exn \<Rightarrow> string" where
  "exn_name e =
     (case e of
        CalledProcessError \<Rightarrow> ''CalledProcessError''
      | AssertionError \<Rightarrow> ''AssertionError''
      | IndexError \<Rightarrow> ''IndexError''
      | ValueError \<Rightarrow> ''ValueError''
      | AttributeError \<Rightarrow> ''AttributeError''
      | KeyError \<Rightarrow> ''KeyError''
      | FileNotFoundError \<Rightarrow> ''FileNotFoundError''
      | NotADirectoryError \<Rightarrow> ''NotADirectoryError''
      | PermissionError \<Rightarrow> ''PermissionError''
      | OSError \<Rightarrow> ''OSError'')"

text \<open>
  Lines 323 to 343: the target directory and its rights.
  \<^verbatim>\<open>
      if language == "en":
          target = os.path.join(www_root, version)
      else:
          language_dir = os.path.join(www_root, language)
          os.makedirs(language_dir, exist_ok=True)
          try:
              shell_out(["chgrp", "-R", group, language_dir])
          except subprocess.CalledProcessError as err:
              logging.warning("Can't change group of %s: %s", language_dir, str(err))
          os.chmod(language_dir, 0o775)
          target = os.path.join(language_dir, version)

      os.makedirs(target, exist_ok=True)
      try:
          os.chmod(target, 0o775)
      except PermissionError as err:
          logging.warning("Can't change mod of %s: %s", target, str(err))
      try:
          shell_out(["chgrp", "-R", group, target])
      except subprocess.CalledProcessError as err:
          logging.warning("Can't change group of %s: %s", target, str(err))
  \<close>
\<close>

definition chgrp_or_warn :: "world \<Rightarrow> string \<Rightarrow> string \<Rightarrow> unit prog" where
  "chgrp_or_warn w grp path =
     try_except (shell_out_stmt w (Argv [''chgrp'', ''-R'', grp, path]) None)
       (\<lambda>e. e = CalledProcessError)
       (\<lambda>err. emit (Log WARNING ''Can't change group of %s: %s'' [path, exn_name err]))"

definition prepare_target :: "world \<Rightarrow> string \<Rightarrow> string \<Rightarrow> string \<Rightarrow> string \<Rightarrow> string prog" where
  "prepare_target w www_root version language grp =
     bnd (if language = ''en'' then ret (path_join www_root [version])
          else (let language_dir = path_join www_root [language]
                in seq (block [os_makedirs w language_dir True,
                               chgrp_or_warn w grp language_dir,
                               os_chmod w language_dir])
                     (ret (path_join language_dir [version]))))
       (\<lambda>target.
          seq (block
                 [os_makedirs w target True,
                  try_except (os_chmod w target) (\<lambda>e. e = PermissionError)
                    (\<lambda>err. emit (Log WARNING ''Can't change mod of %s: %s'' [target, exn_name err])),
                  chgrp_or_warn w grp target])
            (ret target))"

text \<open>
  Lines 345 to 393: the changed files, the copy of the HTML files and, unless the build
  is a quick one, of the archives.  The value is the list \<^verbatim>\<open>changed\<close>.
  \<^verbatim>\<open>
      changed = changed_files(os.path.join(checkout, "Doc/build/html"), target)
      logging.info("Copying HTML files to %s", target)
      shell_out(["chown", "-R", ":" + group, os.path.join(checkout, "Doc/build/html/")])
      shell_out(["chmod", "-R", "o+r", os.path.join(checkout, "Doc/build/html/")])
      shell_out(["find", os.path.join(checkout, "Doc/build/html/"),
                 "-type", "d", "-exec", "chmod", "o+x", "{}", ";"])
      if quick:
          shell_out(["rsync", "-a", os.path.join(checkout, "Doc/build/html/"), target])
      else:
          shell_out(["rsync", "-a", "--delete-delay", "--filter", "P archives/",
                     os.path.join(checkout, "Doc/build/html/"), target])
      if not quick:
          logging.debug("Copying dist files")
          shell_out(["chown", "-R", ":" + group, os.path.join(checkout, "Doc/dist/")])
          shell_out(["chmod", "-R", "o+r", os.path.join(checkout, os.path.join("Doc/dist/"))])
          shell_out(["mkdir", "-m", "o+rx", "-p", os.path.join(target, "archives")])
          shell_out(["chown", ":" + group, os.path.join(target, "archives")])
          shell_out("cp -a {src} {dst}".format(src=os.path.join(checkout, "Doc/dist/*"),
                                               dst=os.path.join(target, "archives")),
                    shell=True)
          changed.append("archives/")
          for fn in os.listdir(os.path.join(target, "archives")):
              changed.append("archives/" + fn)
  \<close>
\<close>

definition copy_html :: "world \<Rightarrow> string \<Rightarrow> string \<Rightarrow> string \<Rightarrow> bool \<Rightarrow> unit prog" where
  "copy_html w checkout target grp quick =
     (let html = path_join checkout [''Doc/build/html/'']
      in block
           [emit (Log INFO ''Copying HTML files to %s'' [target]),
            shell_out_stmt w (Argv [''chown'', ''-R'', '':'' @ grp, html]) None,
            shell_out_stmt w (Argv [''chmod'', ''-R'', ''o+r'', html]) None,
            shell_out_stmt w
              (Argv [''find'', html, ''-type'', ''d'', ''-exec'', ''chmod'', ''o+x'', ''{}'', '';''])
              None,
            if quick then shell_out_stmt w (Argv [''rsync'', ''-a'', html, target]) None
            else shell_out_stmt w
                   (Argv [''rsync'', ''-a'', ''--delete-delay'', ''--filter'', ''P archives/'',
                          html, target])
                   None])"

definition copy_dist :: "world \<Rightarrow> string \<Rightarrow> string \<Rightarrow> string \<Rightarrow> unit prog" where
  "copy_dist w checkout target grp =
     (let dist = path_join checkout [''Doc/dist/''];
          archives = path_join target [''archives'']
      in block
           [emit (Log DEBUG ''Copying dist files'' []),
            shell_out_stmt w (Argv [''chown'', ''-R'', '':'' @ grp, dist]) None,
            shell_out_stmt w (Argv [''chmod'', ''-R'', ''o+r'', dist]) None,
            shell_out_stmt w (Argv [''mkdir'', ''-m'', ''o+rx'', ''-p'', archives]) None,
            shell_out_stmt w (Argv [''chown'', '':'' @ grp, archives]) None,
            shell_out_stmt w
              (Shell (''cp -a '' @ path_join checkout [''Doc/dist/*''] @ '' '' @ archives))
              None])"

definition publish_files ::
  "world \<Rightarrow> string \<Rightarrow> string \<Rightarrow> string \<Rightarrow> bool \<Rightarrow> string list prog" where
  "publish_files w checkout target grp quick =
     bnd (bnd (observe (\<lambda>tr. changed_files (fs_tree w tr (path_join checkout [''Doc/build/html'']))
                               (fs_tree w tr target)))
            from_result)
       (\<lambda>changed.
          seq (copy_html w checkout target grp quick)
            (if \<not> quick
             then seq (copy_dist w checkout target grp)
                    (bnd (os_listdir w (path_join target [''archives''])) (\<lambda>names.
                       ret (changed @ [''archives/''] @ map (\<lambda>fn. ''archives/'' @ fn) names)))
             else ret changed))"

text \<open>
  Lines 397 to 407: the purge of the CDN.
  \<^verbatim>\<open>
          targets_dir = www_root
          prefixes = shell_out(["find", "-L", targets_dir, "-samefile", target])
          prefixes = prefixes.replace(targets_dir + "/", "")
          prefixes = [prefix + "/" for prefix in prefixes.split("\n") if prefix]
          to_purge = prefixes[:]
          for prefix in prefixes:
              to_purge.extend(prefix + p for p in changed)
          logging.info("Running CDN purge")
          shell_out(
              ["curl", "-XPURGE", "https://docs.python.org/{%s}" % ",".join(to_purge)]
          )
  \<close>
  \<^verbatim>\<open>prefixes.replace\<close> raises \<^verbatim>\<open>AttributeError\<close> when \<open>shell_out\<close> returned \<open>None\<close>.
\<close>

function replace_scan :: "string \<Rightarrow> string \<Rightarrow> string \<Rightarrow> string" where
  "replace_scan old new [] = []"
| "replace_scan old new (c # cs) =
     (if old \<noteq> [] \<and> take (length old) (c # cs) = old
      then new @ replace_scan old new (drop (length old) (c # cs))
      else c # replace_scan old new cs)"
  by pat_completeness auto
termination
  by (relation "measure (\<lambda>(old, new, s). length s)") auto

text \<open>\<^verbatim>\<open>s.replace(old, new)\<close>: the occurrences of \<open>old\<close> are replaced from the left, without
  overlap; an empty \<open>old\<close> matches before every character and at the end.\<close>

definition str_replace :: "string \<Rightarrow> string \<Rightarrow> string \<Rightarrow> string" where
  "str_replace s old new =
     (if old = [] then new @ concat (map (\<lambda>c. c # new) s) else replace_scan old new s)"

definition alias_prefixes :: "string \<Rightarrow> string \<Rightarrow> string list" where
  "alias_prefixes targets_dir found =
     map (\<lambda>prefix. prefix @ ''/'')
       (filter (\<lambda>prefix. prefix \<noteq> [])
          (split_on (CHR ''\<newline>'') (str_replace found (targets_dir @ ''/'') [])))"

definition to_purge :: "string list \<Rightarrow> string list \<Rightarrow> string list" where
  "to_purge prefixes changed =
     prefixes @ concat (map (\<lambda>prefix. map (\<lambda>p. prefix @ p) changed) prefixes)"

definition purge_command :: "string list \<Rightarrow> command" where
  "purge_command paths =
     Argv [''curl'', ''-XPURGE'', ''https://docs.python.org/{'' @ join '','' paths @ ''}'']"

definition purge_cdn :: "world \<Rightarrow> string \<Rightarrow> string \<Rightarrow> string list \<Rightarrow> unit prog" where
  "purge_cdn w www_root target changed =
     bnd (shell_out w (Argv [''find'', ''-L'', www_root, ''-samefile'', target]) None) (\<lambda>found.
       case found of
         None \<Rightarrow> raise AttributeError
       | Some found_text \<Rightarrow>
           seq (emit (Log INFO ''Running CDN purge'' []))
             (shell_out_stmt w
                (purge_command (to_purge (alias_prefixes www_root found_text) changed)) None))"

text \<open>
  \<^verbatim>\<open>
  def copy_build_to_webroot(
      build_root, version, language, group, quick, skip_cache_invalidation, www_root
  ):
      logging.info("Publishing start for version: %s, language: %s", version, language)
      checkout = os.path.join(build_root, version, "cpython-{lang}".format(lang=language))
      ... (lines 323 to 393)
      logging.info("%s files changed", len(changed))
      if changed and not skip_cache_invalidation:
          ... (lines 397 to 407)
      logging.info("Publishing done for version: %s, language: %s", version, language)
  \<close>
  \<open>changed_of\<close> is the first part, up to the value of \<^verbatim>\<open>changed\<close> at line 395.
\<close>

definition changed_of ::
  "world \<Rightarrow> string \<Rightarrow> string \<Rightarrow> string \<Rightarrow> string \<Rightarrow> bool \<Rightarrow> string \<Rightarrow> (string \<times> string list) prog"
  where
  "changed_of w build_root version language grp quick www_root =
     seq (emit (Log INFO ''Publishing start for version: %s, language: %s'' [version, language]))
       (bnd (prepare_target w www_root version language grp) (\<lambda>target.
        bnd (publish_files w (path_join build_root [version, ''cpython-'' @ language]) target
               grp quick)
          (\<lambda>changed. ret (target, changed))))"

definition invalidate ::
  "world \<Rightarrow> string \<Rightarrow> string \<Rightarrow> bool \<Rightarrow> string \<Rightarrow> string \<Rightarrow> string list \<Rightarrow> unit prog" where
  "invalidate w version language skip_cache_invalidation www_root target changed =
     block
       [emit (Log INFO ''%s files changed'' [py_str (int (length changed))]),
        do_if (changed \<noteq> [] \<and> \<not> skip_cache_invalidation) (purge_cdn w www_root target changed),
        emit (Log INFO ''Publishing done for version: %s, language: %s'' [version, language])]"

definition copy_build_to_webroot ::
  "world \<Rightarrow> string \<Rightarrow> string \<Rightarrow> string \<Rightarrow> string \<Rightarrow> bool \<Rightarrow> bool \<Rightarrow> string \<Rightarrow> unit prog" where
  "copy_build_to_webroot w build_root version language grp quick skip_cache_invalidation www_root =
     bnd (changed_of w build_root version language grp quick www_root) (\<lambda>(target, changed).
       invalidate w version language skip_cache_invalidation www_root target changed)"

section \<open>main\<close>

text \<open>
  The parsed command line, after lines 519 to 537 (the \<^verbatim>\<open>--version\<close> exit, absolute paths
  and the set-up of \<^verbatim>\<open>logging\<close>, which are not modelled).
\<close>

record args =
  a_quick :: bool
  a_branch :: "string option"
  a_build_root :: string
  a_www_root :: string
  a_skip_cache_invalidation :: bool
  a_group :: string
  a_log_directory :: string
  a_languages :: "string list"



definition build_and_publish :: "world \<Rightarrow> args \<Rightarrow> string \<Rightarrow> string \<Rightarrow> bool \<Rightarrow> string \<Rightarrow> unit prog"
  where
  "build_and_publish w a version git_branch devel language =
     seq (build_one w version git_branch devel (a_quick a) (path_join (a_build_root a) [''venv''])
            (a_build_root a) (a_group a) (a_log_directory a) language)
       (copy_build_to_webroot w (a_build_root a) version language (a_group a) (a_quick a)
          (a_skip_cache_invalidation a) (a_www_root a))"



text \<open>
  The vocabulary of the claim about \<open>changed_files\<close>: two trees differ at a relative path
  when both hold a regular file there and \<^verbatim>\<open>filecmp\<close> judges the two files different.
\<close>

definition differs_at :: "node \<Rightarrow> node \<Rightarrow> string list \<Rightarrow> bool" where
  "differs_at left right p =
     (case (node_at left p, node_at right p) of
        (Some (File c1 m1), Some (File c2 m2)) \<Rightarrow> files_differ c1 m1 c2 m2
      | _ \<Rightarrow> False)"

text \<open>The trees of the example: in the built tree, \<open>index.html\<close> was modified and
  \<open>whatsnew.html\<close> was added.\<close>

definition published_tree :: node where
  "published_tree =
     Dir [(''index.html'', File ''old text'' 1),
          (''library'', Dir [(''os.html'', File ''os'' 1)])]"

definition built_tree :: node where
  "built_tree =
     Dir [(''index.html'', File ''new text!'' 2),
          (''whatsnew.html'', File ''added'' 2),
          (''library'', Dir [(''os.html'', File ''os'' 2)])]"

section \<open>Example environments\<close>

text \<open>An environment in which every command exits with status 0 and prints nothing,
  every path is a directory that exists, and no operation fails.  Sentry is not
  installed.\<close>

definition calm_world :: world where
  "calm_world =
     \<lparr>sentry_sdk = False,
      clock = (\<lambda>tr. ''2020-01-01 00:00:00''),
      proc = (\<lambda>tr cmd. Exited 0 []),
      path_isdir = (\<lambda>tr path. True),
      path_exists = (\<lambda>tr path. True),
      fs_rmtree = (\<lambda>tr path. None),
      fs_makedirs = (\<lambda>tr path exist_ok. None),
      fs_chmod = (\<lambda>tr path. None),
      fs_append = (\<lambda>tr path. None),
      fs_listdir = (\<lambda>tr path. Inr []),
      fs_tree = (\<lambda>tr path. Some (Dir []))\<rparr>"

text \<open>The same, but every \<^verbatim>\<open>git fetch\<close> exits with status 128.\<close>

definition fetch_fails_world :: world where
  "fetch_fails_world =
     calm_world
       \<lparr>proc := (\<lambda>tr cmd. if last (words_of cmd) = ''fetch''
                          then Exited 128 ''fatal: unable to access the remote''
                          else Exited 0 [])\<rparr>"

text \<open>No path is a git repository or exists, and every \<^verbatim>\<open>git clone\<close> exits with status
  128.\<close>

definition clone_fails_world :: world where
  "clone_fails_world =
     calm_world
       \<lparr>proc := (\<lambda>tr cmd. if take 2 (words_of cmd) = [''git'', ''clone'']
                          then Exited 128 ''fatal: repository not found''
                          else Exited 0 []),
        path_isdir := (\<lambda>tr path. False),
        path_exists := (\<lambda>tr path. False)\<rparr>"

text \<open>The remote branches of the translation repository have no numeric name.\<close>

definition no_numeric_branch_world :: world where
  "no_numeric_branch_world =
     calm_world
       \<lparr>proc := (\<lambda>tr cmd. if last (words_of cmd) = ''-r''
                          then Exited 0 ''  origin/HEAD -> origin/master\<newline>  origin/master\<newline>''
                          else Exited 0 [])\<rparr>"

text \<open>Every \<^verbatim>\<open>find -L\<close> (the lookup of the aliases of the target) exits with status 1.\<close>

definition find_fails_world :: world where
  "find_fails_world =
     calm_world
       \<lparr>proc := (\<lambda>tr cmd. if take 2 (words_of cmd) = [''find'', ''-L'']
                          then Exited 1 ''find: File system loop detected''
                          else Exited 0 [])\<rparr>"

text \<open>Every \<^verbatim>\<open>make\<close> exits with status 2.\<close>

definition make_fails_world :: world where
  "make_fails_world =
     calm_world
       \<lparr>proc := (\<lambda>tr cmd. if take 1 (words_of cmd) = [''make'']
                          then Exited 2 ''make: *** [autobuild-stable] Error 2''
                          else Exited 0 [])\<rparr>"

text \<open>Every \<^verbatim>\<open>make\<close> exits with status 2, and the directory of the log files does not
  exist: no log file can be opened.\<close>

definition no_log_directory_world :: world where
  "no_log_directory_world = make_fails_world\<lparr>fs_append := (\<lambda>tr path. Some NoSuchFile)\<rparr>"


definition example_args :: args where
  "example_args =
     \<lparr>a_quick = False,
      a_branch = None,
      a_build_root = ''/srv/docsbuild'',
      a_www_root = ''/srv/docs.python.org'',
      a_skip_cache_invalidation = False,
      a_group = ''docs'',
      a_log_directory = ''/var/log/docsbuild'',
      a_languages = [''fr'', ''en'']\<rparr>"

section \<open>What the events show\<close>

text \<open>The purge requests among the events: the \<^verbatim>\<open>curl\<close> commands that were run.\<close>

fun curl_request :: "event \<Rightarrow> command list" where
  "curl_request (Run (Argv (c # ws))) = (if c = ''curl'' then [Argv (c # ws)] else [])"
| "curl_request ev = []"

definition purge_requests :: "event list \<Rightarrow> command list" where
  "purge_requests tr = concat (map curl_request tr)"

text \<open>The units whose build was started: the version and language of every
  \<^verbatim>\<open>Build start\<close> message, the first thing \<open>build_one\<close> logs.\<close>

fun started :: "event \<Rightarrow> (string \<times> string) list" where
  "started (Log lvl fmt as) =
     (if lvl = INFO \<and> fmt = ''Build start for version: %s, language: %s''
      then (case as of [version, language] \<Rightarrow> [(version, language)] | _ \<Rightarrow> [])
      else [])"
| "started ev = []"

definition build_starts :: "event list \<Rightarrow> (string \<times> string) list" where
  "build_starts tr = concat (map started tr)"



text \<open>An environment in which the target has two aliases and the archives directory
  holds one file.\<close>

definition aliases_world :: world where
  "aliases_world =
     calm_world
       \<lparr>proc := (\<lambda>tr cmd. if take 2 (words_of cmd) = [''find'', ''-L'']
                          then Exited 0 ''/srv/docs.python.org/3.8\<newline>/srv/docs.python.org/3\<newline>''
                          else Exited 0 []),
        fs_listdir := (\<lambda>tr path. Inr [''python-3.8-docs-html.zip''])\<rparr>"



section \<open>Facts about the string functions\<close>

lemma split_on_not_Nil: "split_on c s \<noteq> []"
  by (induction s) (auto split: list.splits)

lemma split_on_no_sep: "c \<notin> set s \<Longrightarrow> split_on c s = [s]"
  by (induction s) auto

lemma split_on_append: "c \<notin> set l \<Longrightarrow> split_on c (l @ c # r) = l # split_on c r"
  by (induction l) auto

lemma join_split_on: "join [c] (split_on c s) = s"
proof (induction s)
  case Nil
  show ?case by simp
next
  case (Cons x xs)
  obtain y ys where sp: "split_on c xs = y # ys"
    using split_on_not_Nil [of c xs] by (cases "split_on c xs") auto
  show ?case
  proof (cases "x = c")
    case True
    with Cons sp show ?thesis by simp
  next
    case False
    with Cons sp show ?thesis by (cases ys) auto
  qed
qed



section \<open>The tag transform (claim C6)\<close>

text \<open>
  A tag with three parts cannot be unpacked into language and region: the function
  raises \<^verbatim>\<open>ValueError\<close>.  PEP 545 tags have one separator at most.
\<close>

lemma pep_545_more_than_one_separator:
  "CHR ''-'' \<notin> set a \<Longrightarrow> CHR ''-'' \<notin> set b \<Longrightarrow>
   pep_545_tag_to_gettext_tag (a @ ''-'' @ b @ ''-'' @ c) = Inl ValueError"
  using split_on_not_Nil [of "CHR ''-''" c]
  by (cases "split_on (CHR ''-'') c") (simp_all add: pep_545_tag_to_gettext_tag_def split_on_append)

text \<open>
  Claim C6.  A tag without the separator \<open>-\<close> is returned unchanged.  A tag made of a
  language, the separator and a region is mapped to the language, an underscore and the
  region in upper case.  In particular \<open>fr\<close> is mapped to \<open>fr\<close>, \<open>pt-br\<close> to \<open>pt_BR\<close> and
  \<open>zh-cn\<close> to \<open>zh_CN\<close>.
\<close>

theorem pep_545_tag_to_gettext_tag_spec:
  "(CHR ''-'' \<notin> set tag \<longrightarrow> pep_545_tag_to_gettext_tag tag = Inr tag) \<and>
   (CHR ''-'' \<notin> set language \<and> CHR ''-'' \<notin> set region \<longrightarrow>
      pep_545_tag_to_gettext_tag (language @ ''-'' @ region) = Inr (language @ ''_'' @ upper region)) \<and>
   pep_545_tag_to_gettext_tag ''fr'' = Inr ''fr'' \<and>
   pep_545_tag_to_gettext_tag ''pt-br'' = Inr ''pt_BR'' \<and>
   pep_545_tag_to_gettext_tag ''zh-cn'' = Inr ''zh_CN''"
proof -
  have a: "CHR ''-'' \<notin> set tag \<longrightarrow> pep_545_tag_to_gettext_tag tag = Inr tag"
    by (simp add: pep_545_tag_to_gettext_tag_def)
  have b: "CHR ''-'' \<notin> set language \<and> CHR ''-'' \<notin> set region \<longrightarrow>
      pep_545_tag_to_gettext_tag (language @ ''-'' @ region) = Inr (language @ ''_'' @ upper region)"
    by (simp add: pep_545_tag_to_gettext_tag_def split_on_append split_on_no_sep)
  have c: "pep_545_tag_to_gettext_tag ''fr'' = Inr ''fr''" by code_simp
  have d: "pep_545_tag_to_gettext_tag ''pt-br'' = Inr ''pt_BR''" by code_simp
  have e: "pep_545_tag_to_gettext_tag ''zh-cn'' = Inr ''zh_CN''" by code_simp
  from a b c d e show ?thesis by (intro conjI)
qed

theorem pep_545_tag_to_gettext_tag_spec_witness:
  "CHR ''-'' \<notin> set ''id'' \<and> pep_545_tag_to_gettext_tag ''id'' = Inr ''id'' \<and>
   CHR ''-'' \<notin> set ''zh'' \<and> CHR ''-'' \<notin> set ''tw'' \<and>
   pep_545_tag_to_gettext_tag (''zh'' @ ''-'' @ ''tw'') = Inr (''zh'' @ ''_'' @ upper ''tw'') \<and>
   upper ''tw'' = ''TW''"
proof -
  have u: "upper ''tw'' = ''TW''" by code_simp
  have n: "CHR ''-'' \<notin> set ''id''" "CHR ''-'' \<notin> set ''zh''" "CHR ''-'' \<notin> set ''tw''" by simp_all
  from pep_545_tag_to_gettext_tag_spec [of "''id''" "''zh''" "''tw''"] n u
  show ?thesis by (intro conjI) blast+
qed

section \<open>The version matcher (claim C1)\<close>

text \<open>Binary search: on a sorted list, \<open>bisect_left\<close> returns the number of elements below \<open>x\<close>.\<close>

lemma bisect_left_spec:
  fixes a :: "'a::linorder list"
  assumes "sorted a" "lo \<le> hi" "hi \<le> length a"
    "\<forall>i<lo. a ! i < x" "\<forall>i. hi \<le> i \<and> i < length a \<longrightarrow> x \<le> a ! i"
  shows "lo \<le> bisect_left a x lo hi \<and> bisect_left a x lo hi \<le> hi \<and>
         (\<forall>i<bisect_left a x lo hi. a ! i < x) \<and>
         (\<forall>i. bisect_left a x lo hi \<le> i \<and> i < length a \<longrightarrow> x \<le> a ! i)"
  using assms
proof (induction a x lo hi rule: bisect_left.induct)
  case (1 a x lo hi)
  show ?case
  proof (cases "lo < hi")
    case False
    then have "bisect_left a x lo hi = lo" by (subst bisect_left.simps) simp
    with False "1.prems" show ?thesis by auto
  next
    case True
    define mid where "mid = (lo + hi) div 2"
    have m: "lo \<le> mid" "mid < hi" using True by (auto simp: mid_def)
    show ?thesis
    proof (cases "a ! mid < x")
      case lt: True
      have below: "\<forall>i<mid + 1. a ! i < x"
      proof (intro allI impI)
        fix i assume "i < mid + 1"
        then have "i \<le> mid" by simp
        then have "a ! i \<le> a ! mid" using "1.prems"(1,3) m by (auto intro!: sorted_nth_mono)
        with lt show "a ! i < x" by simp
      qed
      have eq: "bisect_left a x lo hi = bisect_left a x (mid + 1) hi"
        using True lt by (subst bisect_left.simps) (simp add: mid_def Let_def)
      have "mid + 1 \<le> bisect_left a x (mid + 1) hi \<and> bisect_left a x (mid + 1) hi \<le> hi \<and>
         (\<forall>i<bisect_left a x (mid + 1) hi. a ! i < x) \<and>
         (\<forall>i. bisect_left a x (mid + 1) hi \<le> i \<and> i < length a \<longrightarrow> x \<le> a ! i)"
        using "1.IH"(1) [OF True mid_def lt "1.prems"(1) _ "1.prems"(3) below "1.prems"(5)] m by simp
      with eq m show ?thesis by auto
    next
      case ge: False
      have above: "\<forall>i. mid \<le> i \<and> i < length a \<longrightarrow> x \<le> a ! i"
      proof (intro allI impI)
        fix i assume "mid \<le> i \<and> i < length a"
        then have "a ! mid \<le> a ! i" using "1.prems"(1) by (auto intro!: sorted_nth_mono)
        with ge show "x \<le> a ! i" by simp
      qed
      have eq: "bisect_left a x lo hi = bisect_left a x lo mid"
        using True ge by (subst bisect_left.simps) (simp add: mid_def Let_def)
      have "lo \<le> bisect_left a x lo mid \<and> bisect_left a x lo mid \<le> mid \<and>
         (\<forall>i<bisect_left a x lo mid. a ! i < x) \<and>
         (\<forall>i. bisect_left a x lo mid \<le> i \<and> i < length a \<longrightarrow> x \<le> a ! i)"
        using "1.IH"(2) [OF True mid_def ge "1.prems"(1) m(1) _ "1.prems"(4) above] m "1.prems"(3) by simp
      with eq m show ?thesis by auto
    qed
  qed
qed

text \<open>Decimal numerals: \<open>py_int\<close> and \<open>py_str\<close> are inverse on the numerals that \<^verbatim>\<open>str\<close> prints.\<close>

lemma is_digit_iff: "is_digit c \<longleftrightarrow> 48 \<le> (of_char c :: nat) \<and> (of_char c :: nat) \<le> 57"
  by (simp add: is_digit_def less_eq_char_def)

lemma is_digit_not_space: "is_digit c \<Longrightarrow> \<not> is_space c"
  by (simp add: is_digit_iff is_space_def Let_def)

lemma is_digit_not_sign: "is_digit c \<Longrightarrow> c \<noteq> CHR ''-'' \<and> c \<noteq> CHR ''+'' \<and> c \<noteq> CHR ''.''"
  by (auto simp: is_digit_iff)

lemma digit_char_val: "is_digit c \<Longrightarrow> digit_char (digit_val c) = c"
  by (simp add: is_digit_iff digit_char_def digit_val_def)

lemma digit_val_lt: "is_digit c \<Longrightarrow> digit_val c < 10"
  by (auto simp: is_digit_iff digit_val_def)

lemma digit_val_pos: "is_digit c \<Longrightarrow> c \<noteq> CHR ''0'' \<Longrightarrow> 0 < digit_val c"
proof -
  assume d: "is_digit c" and n: "c \<noteq> CHR ''0''"
  have "(of_char c :: nat) \<noteq> 48"
  proof
    assume "(of_char c :: nat) = 48"
    then have "(of_char c :: nat) = of_char (CHR ''0'')" by simp
    then have "c = CHR ''0''" by (simp only: of_char_eq_iff)
    with n show False by simp
  qed
  with d show ?thesis by (simp add: is_digit_iff digit_val_def)
qed

lemma strip_digits:
  assumes "s \<noteq> []" "list_all is_digit s"
  shows "strip s = s"
proof -
  have h: "\<not> is_space (hd s)" using assms by (cases s) (auto simp: is_digit_not_space)
  have l: "\<not> is_space (hd (rev s))" using assms
    by (cases s rule: rev_cases) (auto simp: is_digit_not_space)
  have "dropWhile is_space s = s" using h assms(1) by (cases s) auto
  moreover have "dropWhile is_space (rev s) = rev s" using l assms(1) by (cases "rev s") auto
  ultimately show ?thesis by (simp add: strip_def)
qed

lemma underscores_ok_digits: "list_all is_digit s \<Longrightarrow> underscores_ok s"
  by (induction s rule: underscores_ok.induct) auto

lemma decimal_value_snoc:
  "is_digit d \<Longrightarrow> decimal_value (s @ [d]) = 10 * decimal_value s + digit_val d"
  by (simp add: decimal_value_def)

lemma decimal_value_single: "is_digit d \<Longrightarrow> decimal_value [d] = digit_val d"
  by (simp add: decimal_value_def)

lemma foldl_dec_ge: "acc \<le> foldl (\<lambda>acc c. 10 * acc + digit_val c) acc cs"
proof (induction cs arbitrary: acc)
  case Nil show ?case by simp
next
  case (Cons c cs)
  have "acc \<le> 10 * acc + digit_val c" by simp
  also have "\<dots> \<le> foldl (\<lambda>acc c. 10 * acc + digit_val c) (10 * acc + digit_val c) cs" by (rule Cons.IH)
  finally show ?case by simp
qed

lemma decimal_value_pos:
  assumes "s \<noteq> []" "list_all is_digit s" "hd s \<noteq> CHR ''0''"
  shows "0 < decimal_value s"
proof -
  obtain c cs where s: "s = c # cs" using assms(1) by (cases s) auto
  have "0 < digit_val c" using assms s by (auto intro: digit_val_pos)
  also have "digit_val c \<le> foldl (\<lambda>acc c. 10 * acc + digit_val c) (digit_val c) (filter is_digit cs)"
    by (rule foldl_dec_ge)
  finally show ?thesis using assms s by (simp add: decimal_value_def)
qed

lemma str_nat_decimal_value: "canonical_nat s \<Longrightarrow> str_nat (decimal_value s) = s"
proof (induction s rule: rev_induct)
  case Nil
  then show ?case by (simp add: canonical_nat_def)
next
  case (snoc d s)
  have d: "is_digit d" using snoc.prems by (simp add: canonical_nat_def)
  show ?case
  proof (cases "s = []")
    case True
    then show ?thesis using d
      by (simp add: decimal_value_single str_nat.simps [of "digit_val d"] digit_val_lt digit_char_val)
  next
    case False
    then have hd: "hd s \<noteq> CHR ''0''" and ds: "list_all is_digit s"
      using snoc.prems by (auto simp: canonical_nat_def)
    have can: "canonical_nat s" using False hd ds by (simp add: canonical_nat_def)
    have pos: "0 < decimal_value s" using False ds hd by (rule decimal_value_pos)
    have v: "decimal_value (s @ [d]) = 10 * decimal_value s + digit_val d"
      using d by (rule decimal_value_snoc)
    have "\<not> 10 * decimal_value s + digit_val d < 10" using pos by simp
    then have "str_nat (10 * decimal_value s + digit_val d) =
        str_nat ((10 * decimal_value s + digit_val d) div 10) @
        [digit_char ((10 * decimal_value s + digit_val d) mod 10)]"
      by (subst str_nat.simps) simp
    also have "(10 * decimal_value s + digit_val d) div 10 = decimal_value s"
      using digit_val_lt [OF d] by simp
    also have "(10 * decimal_value s + digit_val d) mod 10 = digit_val d"
      using digit_val_lt [OF d] by simp
    finally show ?thesis using v snoc.IH [OF can] d by (simp add: digit_char_val)
  qed
qed

lemma py_int_canonical:
  assumes "canonical_nat s"
  shows "py_int s = Inr (int (decimal_value s))" and "py_str (int (decimal_value s)) = s"
proof -
  have ne: "s \<noteq> []" and ds: "list_all is_digit s" using assms by (auto simp: canonical_nat_def)
  have st: "strip s = s" using ne ds by (rule strip_digits)
  have hd: "is_digit (hd s)" using ne ds by (cases s) auto
  have body: "decimal_body s" using ne hd ds by (simp add: decimal_body_def underscores_ok_digits)
  show "py_int s = Inr (int (decimal_value s))"
    using st ne body is_digit_not_sign [OF hd] by (simp add: py_int_def Let_def)
  show "py_str (int (decimal_value s)) = s"
    using assms by (simp add: py_str_def str_nat_decimal_value)
qed

lemma major_minor_roundtrip:
  assumes "is_major_minor v"
  shows "\<exists>t. version_to_tuple v = Inr t \<and> tuple_to_version t = v"
proof -
  obtain a b where sp: "split_on (CHR ''.'') v = [a, b]" and ca: "canonical_nat a" and cb: "canonical_nat b"
    using assms by (auto simp: is_major_minor_def split: list.splits)
  have v: "v = a @ ''.'' @ b" using join_split_on [of "CHR ''.''" v] sp by simp
  have "version_to_tuple v = Inr [int (decimal_value a), int (decimal_value b)]"
    using sp py_int_canonical(1) [OF ca] py_int_canonical(1) [OF cb] by (simp add: version_to_tuple_def)
  moreover have "tuple_to_version [int (decimal_value a), int (decimal_value b)] = v"
    using v py_int_canonical(2) [OF ca] py_int_canonical(2) [OF cb] by (simp add: tuple_to_version_def)
  ultimately show ?thesis by blast
qed

lemma version_key_major_minor:
  assumes "is_major_minor v"
  shows "version_to_tuple v = Inr (version_key v)" and "tuple_to_version (version_key v) = v"
  using major_minor_roundtrip [OF assms] by (auto simp: version_key_def)

lemma map_result_version_to_tuple:
  "list_all is_major_minor vs \<Longrightarrow> map_result version_to_tuple vs = Inr (map version_key vs)"
  by (induction vs) (simp_all add: version_key_major_minor(1))

lemma py_index_nat: "i < length xs \<Longrightarrow> py_index xs (int i) = Inr (xs ! i)"
  by (simp add: py_index_def)

lemma py_index_out: "length xs \<le> i \<Longrightarrow> py_index xs (int i) = Inl IndexError"
  by (simp add: py_index_def)

lemma py_index_last: "xs \<noteq> [] \<Longrightarrow> py_index xs (- 1) = Inr (last xs)"
proof -
  assume ne: "xs \<noteq> []"
  then have len: "0 < length xs" by simp
  then have "nat (int (length xs) + - 1) = length xs - 1" by simp
  moreover have "- int (length xs) \<le> - 1" using len by linarith
  ultimately show ?thesis using ne by (simp add: py_index_def last_conv_nth)
qed

lemma bisect_spec:
  fixes a :: "'a::linorder list"
  assumes "sorted a"
  shows "bisect a x \<le> length a" and "\<forall>i<bisect a x. a ! i < x"
    and "\<forall>i. bisect a x \<le> i \<and> i < length a \<longrightarrow> x \<le> a ! i"
proof -
  have "0 \<le> bisect_left a x 0 (length a) \<and> bisect_left a x 0 (length a) \<le> length a \<and>
         (\<forall>i<bisect_left a x 0 (length a). a ! i < x) \<and>
         (\<forall>i. bisect_left a x 0 (length a) \<le> i \<and> i < length a \<longrightarrow> x \<le> a ! i)"
    by (rule bisect_left_spec) (use assms in auto)
  then show "bisect a x \<le> length a" and "\<forall>i<bisect a x. a ! i < x"
    and "\<forall>i. bisect a x \<le> i \<and> i < length a \<longrightarrow> x \<le> a ! i"
    by (simp_all add: bisect_def)
qed

lemma locate_nearest_version_found:
  assumes ne: "available \<noteq> []"
    and mm: "list_all is_major_minor available"
    and tt: "version_to_tuple t = Inr tt"
  shows "locate_nearest_version available t =
     Inr (if bisect (map version_key available) tt < length available
          then available ! bisect (map version_key available) tt
          else last available)"
proof -
  let ?keys = "map version_key available"
  let ?r = "bisect ?keys tt"
  have mr: "map_result version_to_tuple available = Inr ?keys"
    using mm by (rule map_result_version_to_tuple)
  show ?thesis
  proof (cases "?r < length available")
    case True
    then have "py_index ?keys (int ?r) = Inr (version_key (available ! ?r))"
      by (simp add: py_index_nat)
    moreover have "is_major_minor (available ! ?r)"
      using mm True by (simp add: list_all_length)
    ultimately show ?thesis using mr tt True
      by (simp add: locate_nearest_version_def version_key_major_minor(2))
  next
    case False
    then have "py_index ?keys (int ?r) = Inl IndexError" by (simp add: py_index_out)
    moreover have "py_index ?keys (- 1) = Inr (version_key (last available))"
      using ne by (simp add: py_index_last last_map)
    moreover have "is_major_minor (last available)"
      using mm ne by (simp add: list_all_iff)
    ultimately show ?thesis using mr tt False
      by (simp add: locate_nearest_version_def version_key_major_minor(2))
  qed
qed

text \<open>
  Claim C1.  Let \<open>available\<close> be a non-empty list of \<open>major.minor\<close> version strings, sorted by
  their integer tuples, and \<open>t\<close> a version string that \<open>version_to_tuple\<close> accepts.  Then
  \<open>locate_nearest_version available t\<close> returns a member \<open>r\<close> of \<open>available\<close>; if \<open>t\<close> is in
  \<open>available\<close> then \<open>r = t\<close>; if some element is at least \<open>t\<close> (as integer tuples, compared
  component by component), \<open>r\<close> is at least \<open>t\<close> and at most every such element; and if no
  element is at least \<open>t\<close>, \<open>r\<close> is the greatest element.  With the list 2.7, 3.6, 3.7,
  3.8 the targets 3.9, 3.5, 2.6, 3.10 and 3.7 give 3.8, 3.6, 2.7, 3.8 and 3.7.

  A \<open>major.minor\<close> string is read as the decimal text of two natural numbers
  (\<open>is_major_minor\<close>).  The function returns the text of the integer tuple it found, so
  for a string with a leading zero the result is not the string itself: see
  \<open>locate_nearest_version_leading_zero\<close> below.
\<close>

theorem locate_nearest_version_spec:
  assumes ne: "available \<noteq> []"
    and mm: "list_all is_major_minor available"
    and srt: "sorted (map version_key available)"
    and tt: "version_to_tuple t = Inr tt"
  shows "(\<exists>r. locate_nearest_version available t = Inr r \<and> r \<in> set available \<and>
          (t \<in> set available \<longrightarrow> r = t) \<and>
          ((\<exists>v\<in>set available. version_key t \<le> version_key v) \<longrightarrow>
             version_key t \<le> version_key r \<and>
             (\<forall>v\<in>set available. version_key t \<le> version_key v \<longrightarrow> version_key r \<le> version_key v)) \<and>
          (\<not> (\<exists>v\<in>set available. version_key t \<le> version_key v) \<longrightarrow>
             (\<forall>v\<in>set available. version_key v \<le> version_key r))) \<and>
         locate_nearest_version [''2.7'', ''3.6'', ''3.7'', ''3.8''] ''3.9'' = Inr ''3.8'' \<and>
         locate_nearest_version [''2.7'', ''3.6'', ''3.7'', ''3.8''] ''3.5'' = Inr ''3.6'' \<and>
         locate_nearest_version [''2.7'', ''3.6'', ''3.7'', ''3.8''] ''2.6'' = Inr ''2.7'' \<and>
         locate_nearest_version [''2.7'', ''3.6'', ''3.7'', ''3.8''] ''3.10'' = Inr ''3.8'' \<and>
         locate_nearest_version [''2.7'', ''3.6'', ''3.7'', ''3.8''] ''3.7'' = Inr ''3.7''"
proof -
  let ?keys = "map version_key available"
  let ?r = "bisect ?keys tt"
  have kt: "version_key t = tt" using tt by (simp add: version_key_def)
  have below: "\<forall>i<?r. ?keys ! i < tt" using srt by (rule bisect_spec(2))
  have above: "\<forall>i. ?r \<le> i \<and> i < length ?keys \<longrightarrow> tt \<le> ?keys ! i" using srt by (rule bisect_spec(3))
  have general: "\<exists>r. locate_nearest_version available t = Inr r \<and> r \<in> set available \<and>
          (t \<in> set available \<longrightarrow> r = t) \<and>
          ((\<exists>v\<in>set available. tt \<le> version_key v) \<longrightarrow>
             tt \<le> version_key r \<and>
             (\<forall>v\<in>set available. tt \<le> version_key v \<longrightarrow> version_key r \<le> version_key v)) \<and>
          (\<not> (\<exists>v\<in>set available. tt \<le> version_key v) \<longrightarrow>
             (\<forall>v\<in>set available. version_key v \<le> version_key r))"
  proof (cases "?r < length available")
    case True
    let ?res = "available ! ?r"
    have res: "locate_nearest_version available t = Inr ?res"
      using locate_nearest_version_found [OF ne mm tt] True by simp
    have mem: "?res \<in> set available" using True by simp
    have ge: "tt \<le> version_key ?res" using above True by auto
    have least: "\<forall>v\<in>set available. tt \<le> version_key v \<longrightarrow> version_key ?res \<le> version_key v"
    proof (intro ballI impI)
      fix v assume "v \<in> set available" and le: "tt \<le> version_key v"
      then obtain j where j: "j < length available" "available ! j = v" by (auto simp: in_set_conv_nth)
      have "?r \<le> j"
      proof (rule ccontr)
        assume "\<not> ?r \<le> j"
        then have "?keys ! j < tt" using below by auto
        with le j show False by simp
      qed
      then have "?keys ! ?r \<le> ?keys ! j" using sorted_nth_mono [OF srt, of ?r j] j(1) by simp
      then show "version_key ?res \<le> version_key v" using j True by simp
    qed
    have exact: "t \<in> set available \<longrightarrow> ?res = t"
    proof
      assume tin: "t \<in> set available"
      then have "version_key ?res \<le> tt" using least kt by auto
      with ge have eq: "version_key ?res = version_key t" using kt by simp
      have "is_major_minor ?res" "is_major_minor t" using mm mem tin by (auto simp: list_all_iff)
      then have a: "tuple_to_version (version_key ?res) = ?res"
        and b: "tuple_to_version (version_key t) = t"
        by (simp_all add: version_key_major_minor(2))
      have "?res = tuple_to_version (version_key ?res)" by (rule a [symmetric])
      also have "\<dots> = tuple_to_version (version_key t)" by (simp only: eq)
      also have "\<dots> = t" by (rule b)
      finally show "?res = t" .
    qed
    have last_part: "\<not> (\<exists>v\<in>set available. tt \<le> version_key v) \<longrightarrow>
             (\<forall>v\<in>set available. version_key v \<le> version_key ?res)"
      using mem ge by blast
    show ?thesis
      by (rule exI [of _ ?res]) (intro conjI impI res mem ge least exact last_part)
  next
    case False
    have len: "?r = length available" using bisect_spec(1) [OF srt, of tt] False by simp
    have res: "locate_nearest_version available t = Inr (last available)"
      using locate_nearest_version_found [OF ne mm tt] False by simp
    have mem: "last available \<in> set available" using ne by simp
    have all_lt: "\<forall>v\<in>set available. version_key v < tt"
    proof
      fix v assume "v \<in> set available"
      then obtain j where j: "j < length available" "available ! j = v" by (auto simp: in_set_conv_nth)
      then have "?keys ! j < tt" using below len by auto
      then show "version_key v < tt" using j by simp
    qed
    have maxi: "\<forall>v\<in>set available. version_key v \<le> version_key (last available)"
    proof
      fix v assume "v \<in> set available"
      then obtain j where j: "j < length available" "available ! j = v" by (auto simp: in_set_conv_nth)
      have "?keys ! j \<le> ?keys ! (length available - 1)"
        using sorted_nth_mono [OF srt, of j "length available - 1"] j(1) by simp
      then show "version_key v \<le> version_key (last available)"
        using j ne by (simp add: last_conv_nth)
    qed
    have notin: "t \<notin> set available" using all_lt kt by auto
    have none: "\<not> (\<exists>v\<in>set available. tt \<le> version_key v)" using all_lt by auto
    have exact: "t \<in> set available \<longrightarrow> last available = t" using notin by simp
    have first_part: "(\<exists>v\<in>set available. tt \<le> version_key v) \<longrightarrow>
             tt \<le> version_key (last available) \<and>
             (\<forall>v\<in>set available. tt \<le> version_key v \<longrightarrow> version_key (last available) \<le> version_key v)"
      using none by simp
    have last_part: "\<not> (\<exists>v\<in>set available. tt \<le> version_key v) \<longrightarrow>
             (\<forall>v\<in>set available. version_key v \<le> version_key (last available))"
      using maxi by simp
    show ?thesis
      by (rule exI [of _ "last available"]) (intro conjI res mem exact first_part last_part)
  qed
  have e1: "locate_nearest_version [''2.7'', ''3.6'', ''3.7'', ''3.8''] ''3.9'' = Inr ''3.8''" by code_simp
  have e2: "locate_nearest_version [''2.7'', ''3.6'', ''3.7'', ''3.8''] ''3.5'' = Inr ''3.6''" by code_simp
  have e3: "locate_nearest_version [''2.7'', ''3.6'', ''3.7'', ''3.8''] ''2.6'' = Inr ''2.7''" by code_simp
  have e4: "locate_nearest_version [''2.7'', ''3.6'', ''3.7'', ''3.8''] ''3.10'' = Inr ''3.8''" by code_simp
  have e5: "locate_nearest_version [''2.7'', ''3.6'', ''3.7'', ''3.8''] ''3.7'' = Inr ''3.7''" by code_simp
  show ?thesis unfolding kt by (intro conjI general e1 e2 e3 e4 e5)
qed

theorem locate_nearest_version_spec_witness:
  "list_all is_major_minor [''3.6'', ''3.7'', ''3.10''] \<and>
   sorted (map version_key [''3.6'', ''3.7'', ''3.10'']) \<and>
   version_to_tuple ''3.9'' = Inr [3, 9] \<and>
   locate_nearest_version [''3.6'', ''3.7'', ''3.10''] ''3.9'' = Inr ''3.10'' \<and>
   ''3.10'' \<in> set [''3.6'', ''3.7'', ''3.10''] \<and>
   version_key ''3.9'' \<le> version_key ''3.10'' \<and>
   version_to_tuple ''3.7'' = Inr [3, 7] \<and>
   locate_nearest_version [''3.6'', ''3.7'', ''3.10''] ''3.7'' = Inr ''3.7''"
proof -
  have h1: "[''3.6'', ''3.7'', ''3.10''] \<noteq> []" by simp
  have h2: "list_all is_major_minor [''3.6'', ''3.7'', ''3.10'']" by code_simp
  have h3: "sorted (map version_key [''3.6'', ''3.7'', ''3.10''])" by code_simp
  have h4: "version_to_tuple ''3.9'' = Inr [3, 9]" by code_simp
  have h5: "version_to_tuple ''3.7'' = Inr [3, 7]" by code_simp
  have v: "locate_nearest_version [''3.6'', ''3.7'', ''3.10''] ''3.9'' = Inr ''3.10''" by code_simp
  have k: "version_key ''3.9'' \<le> version_key ''3.10''" by code_simp
  obtain r where r: "locate_nearest_version [''3.6'', ''3.7'', ''3.10''] ''3.9'' = Inr r"
      "r \<in> set [''3.6'', ''3.7'', ''3.10'']"
    using locate_nearest_version_spec [OF h1 h2 h3 h4] by blast
  from r v have m: "''3.10'' \<in> set [''3.6'', ''3.7'', ''3.10'']" by simp
  obtain r' where r': "locate_nearest_version [''3.6'', ''3.7'', ''3.10''] ''3.7'' = Inr r'"
      "''3.7'' \<in> set [''3.6'', ''3.7'', ''3.10''] \<longrightarrow> r' = ''3.7''"
    using locate_nearest_version_spec [OF h1 h2 h3 h5] by blast
  have "''3.7'' \<in> set [''3.6'', ''3.7'', ''3.10'']" by simp
  with r' have e: "locate_nearest_version [''3.6'', ''3.7'', ''3.10''] ''3.7'' = Inr ''3.7''"
    by blast
  from h2 h3 h4 v m k h5 e show ?thesis by (intro conjI)
qed

text \<open>Outside the canonical strings the result is the normalised text.\<close>

lemma locate_nearest_version_leading_zero:
  "locate_nearest_version [''3.07''] ''3.07'' = Inr ''3.7''"
  by code_simp

section \<open>Changed files (claim C2)\<close>

lemma set_listing: "set (listing es) = {n \<in> fst ` set es. n \<notin> set ignored_names}"
  by (auto simp: listing_def)

lemma map_of_in_fst: "map_of es x = Some n \<Longrightarrow> x \<in> fst ` set es"
  by (metis domI dom_map_of_conv_image_fst)

lemma in_common:
  "x \<in> set (common l r) \<longleftrightarrow> x \<notin> set ignored_names \<and> x \<in> fst ` set l \<and> x \<in> fst ` set r"
  by (auto simp: common_def set_listing)

lemma in_diff_files:
  "x \<in> set (diff_files l r) \<longleftrightarrow>
     x \<notin> set ignored_names \<and>
     (\<exists>c1 m1 c2 m2. map_of l x = Some (File c1 m1) \<and> map_of r x = Some (File c2 m2) \<and>
        files_differ c1 m1 c2 m2)"
proof (cases "map_of l x")
  case None
  then show ?thesis by (simp add: diff_files_def)
next
  case (Some nl)
  note l = this
  show ?thesis
  proof (cases "map_of r x")
    case None
    then show ?thesis using l by (cases nl) (simp_all add: diff_files_def)
  next
    case (Some nr)
    have "x \<in> fst ` set l" "x \<in> fst ` set r" using l Some by (auto intro: map_of_in_fst)
    then show ?thesis using l Some
      by (cases nl; cases nr) (simp_all add: diff_files_def in_common)
  qed
qed

lemma in_common_dirs:
  "x \<in> set (common_dirs l r) \<longleftrightarrow>
     x \<notin> set ignored_names \<and>
     (\<exists>l' r'. map_of l x = Some (Dir l') \<and> map_of r x = Some (Dir r'))"
proof (cases "map_of l x")
  case None
  then show ?thesis by (simp add: common_dirs_def)
next
  case (Some nl)
  note l = this
  show ?thesis
  proof (cases "map_of r x")
    case None
    then show ?thesis using l by (cases nl) (simp_all add: common_dirs_def)
  next
    case (Some nr)
    have "x \<in> fst ` set l" "x \<in> fst ` set r" using l Some by (auto intro: map_of_in_fst)
    then show ?thesis using l Some
      by (cases nl; cases nr) (simp_all add: common_dirs_def in_common)
  qed
qed

lemma differs_at_Nil:
  "differs_at nl nr [] \<longleftrightarrow>
     (\<exists>c1 m1 c2 m2. nl = File c1 m1 \<and> nr = File c2 m2 \<and> files_differ c1 m1 c2 m2)"
  by (auto simp: differs_at_def split: node.splits)

lemma differs_at_Cons:
  "differs_at (Dir l) (Dir r) (x # xs) \<longleftrightarrow>
     x \<notin> set ignored_names \<and>
     (\<exists>nl nr. map_of l x = Some nl \<and> map_of r x = Some nr \<and> differs_at nl nr xs)"
  by (auto simp: differs_at_def split: option.splits node.splits)

lemma differs_at_File_left: "differs_at (File c m) nr (x # xs) = False"
  by (simp add: differs_at_def)

lemma differs_at_File_right: "differs_at nl (File c m) (x # xs) = False"
  by (cases nl) (auto simp: differs_at_def split: option.splits node.splits)

lemma traverse_mem:
  "q \<in> set (traverse base left right) \<longleftrightarrow>
     (\<exists>p. p \<noteq> [] \<and> q = join ''/'' (base @ p) \<and> differs_at left right p)"
proof (induction base left right arbitrary: q rule: traverse.induct)
  case (1 base l r)
  show ?case
  proof
    assume "q \<in> set (traverse base (Dir l) (Dir r))"
    then consider
      (changed_file) f where "f \<in> set (diff_files l r)" "q = join ''/'' (base @ [f])"
      | (in_subdir) x where "x \<in> set (common_dirs l r)"
          "q \<in> set (case (map_of l x, map_of r x) of
                      (Some nl, Some nr) \<Rightarrow> traverse (base @ [x]) nl nr | _ \<Rightarrow> [])"
      by auto
    then show "\<exists>p. p \<noteq> [] \<and> q = join ''/'' (base @ p) \<and> differs_at (Dir l) (Dir r) p"
    proof cases
      case changed_file
      from changed_file(1) have "differs_at (Dir l) (Dir r) [f]"
        by (auto simp: in_diff_files differs_at_Cons differs_at_Nil)
      with changed_file(2) show ?thesis by blast
    next
      case in_subdir
      from in_subdir(1) obtain l' r' where x: "x \<notin> set ignored_names"
        "map_of l x = Some (Dir l')" "map_of r x = Some (Dir r')"
        by (auto simp: in_common_dirs)
      from in_subdir(2) x have "q \<in> set (traverse (base @ [x]) (Dir l') (Dir r'))" by simp
      then obtain p where p: "p \<noteq> []" "q = join ''/'' ((base @ [x]) @ p)"
          "differs_at (Dir l') (Dir r') p"
        using "1.IH" [OF in_subdir(1) refl x(2) x(3)] by auto
      from x p(3) have "differs_at (Dir l) (Dir r) (x # p)" by (auto simp: differs_at_Cons)
      with p(2) show ?thesis by (intro exI [of _ "x # p"]) simp
    qed
  next
    assume "\<exists>p. p \<noteq> [] \<and> q = join ''/'' (base @ p) \<and> differs_at (Dir l) (Dir r) p"
    then obtain x xs where q: "q = join ''/'' (base @ x # xs)"
      and d: "differs_at (Dir l) (Dir r) (x # xs)"
      by (metis list.exhaust)
    from d obtain nl nr where x: "x \<notin> set ignored_names" "map_of l x = Some nl"
      "map_of r x = Some nr" and sub: "differs_at nl nr xs"
      by (auto simp: differs_at_Cons)
    show "q \<in> set (traverse base (Dir l) (Dir r))"
    proof (cases xs)
      case Nil
      with sub x have "x \<in> set (diff_files l r)"
        by (auto simp: in_diff_files differs_at_Nil)
      with q Nil show ?thesis by auto
    next
      case (Cons y ys)
      obtain l' where nl: "nl = Dir l'"
        using sub Cons by (cases nl) (auto simp: differs_at_File_left)
      obtain r' where nr: "nr = Dir r'"
        using sub Cons by (cases nr) (auto simp: differs_at_File_right)
      have cd: "x \<in> set (common_dirs l r)" using x nl nr by (auto simp: in_common_dirs)
      have "q \<in> set (traverse (base @ [x]) nl nr)"
        using "1.IH" [OF cd refl x(2) x(3), of q] sub q Cons by auto
      with cd x show ?thesis by auto
    qed
  qed
next
  case (2 base c m r)
  show ?case by (auto simp: differs_at_File_left neq_Nil_conv)
next
  case (3 base l c m)
  show ?case by (auto simp: differs_at_File_right neq_Nil_conv)
qed

text \<open>
  Claim C2, amended.  For two directory trees, \<open>changed_files\<close> returns the paths,
  relative to the left tree, at which both trees hold a regular file and \<^verbatim>\<open>filecmp\<close> judges
  the two files different (they do not have the same size and modification time, and
  their contents differ); the directories on the way exist in both trees and none of the
  names is one that \<^verbatim>\<open>dircmp\<close> ignores.  A file that only one of the trees holds is not
  reported: for the example trees, where \<open>index.html\<close> was modified and \<open>whatsnew.html\<close>
  was added, the result is \<open>index.html\<close> alone.
\<close>

theorem changed_files_spec:
  "(\<exists>changed. changed_files (Some (Dir l)) (Some (Dir r)) = Inr changed \<and>
      set changed = {join ''/'' p |p. p \<noteq> [] \<and> differs_at (Dir l) (Dir r) p}) \<and>
   changed_files (Some built_tree) (Some published_tree) = Inr [''index.html'']"
proof -
  have "q \<in> set (traverse [] (Dir l) (Dir r)) \<longleftrightarrow>
          (\<exists>p. p \<noteq> [] \<and> q = join ''/'' p \<and> differs_at (Dir l) (Dir r) p)" for q
    using traverse_mem [of q "[]" "Dir l" "Dir r"] by (simp only: append_Nil)
  then have "set (traverse [] (Dir l) (Dir r)) = {join ''/'' p |p. p \<noteq> [] \<and> differs_at (Dir l) (Dir r) p}"
    by blast
  then have general: "\<exists>changed. changed_files (Some (Dir l)) (Some (Dir r)) = Inr changed \<and>
      set changed = {join ''/'' p |p. p \<noteq> [] \<and> differs_at (Dir l) (Dir r) p}"
    by (simp add: changed_files_def)
  have example: "changed_files (Some built_tree) (Some published_tree) = Inr [''index.html'']"
    by code_simp
  from general example show ?thesis by (rule conjI)
qed

theorem changed_files_spec_witness:
  "\<exists>changed. changed_files (Some built_tree) (Some published_tree) = Inr changed \<and>
     set changed = {join ''/'' p |p. p \<noteq> [] \<and> differs_at built_tree published_tree p}"
  unfolding built_tree_def published_tree_def
  by (rule changed_files_spec [THEN conjunct1])

text \<open>
  The claim as stated fails on the example: \<open>whatsnew.html\<close> is a regular file of the
  built tree that the published tree does not have, and it is not in the result.
\<close>

theorem changed_files_added_file_counterexample:
  "node_at built_tree [''whatsnew.html''] = Some (File ''added'' 2) \<and>
   node_at published_tree [''whatsnew.html''] = None \<and>
   changed_files (Some built_tree) (Some published_tree) = Inr [''index.html''] \<and>
   ''whatsnew.html'' \<notin> set [''index.html'']"
proof -
  have a: "node_at built_tree [''whatsnew.html''] = Some (File ''added'' 2)" by code_simp
  have b: "node_at published_tree [''whatsnew.html''] = None" by code_simp
  have c: "changed_files (Some built_tree) (Some published_tree) = Inr [''index.html'']"
    by code_simp
  have d: "''whatsnew.html'' \<notin> set [''index.html'']" by simp
  from a b c d show ?thesis by (intro conjI)
qed

section \<open>Commands that fail (claims C9, C3 and C8)\<close>

lemmas prog_defs = bnd_def seq_def ret_def raise_def emit_def observe_def do_if_def
  from_result_def try_except_def

lemma bnd_Inl:
  "bnd m f tr = (Inl e, tr') \<Longrightarrow>
     m tr = (Inl e, tr') \<or> (\<exists>x tr1. m tr = (Inr x, tr1) \<and> f x tr1 = (Inl e, tr'))"
  by (auto simp: bnd_def split: prod.splits sum.splits)

lemma seq_Inl:
  "seq m n tr = (Inl e, tr') \<Longrightarrow>
     m tr = (Inl e, tr') \<or> (\<exists>x tr1. m tr = (Inr x, tr1) \<and> n tr1 = (Inl e, tr'))"
  unfolding seq_def by (rule bnd_Inl)

lemma bnd_Inr:
  "bnd m f tr = (Inr y, tr') \<Longrightarrow> \<exists>x tr1. m tr = (Inr x, tr1) \<and> f x tr1 = (Inr y, tr')"
  by (auto simp: bnd_def split: prod.splits sum.splits)

lemma seq_Inr:
  "seq m n tr = (Inr y, tr') \<Longrightarrow> \<exists>x tr1. m tr = (Inr x, tr1) \<and> n tr1 = (Inr y, tr')"
  unfolding seq_def by (rule bnd_Inr)

subsection \<open>shell\_out\<close>

text \<open>
  Claim C9 (amended).  When the command exits with a status other than 0, \<open>shell_out\<close>
  reports the failure to Sentry when Sentry is installed.  Then, when no log file was
  given, it logs the failure with \<^verbatim>\<open>logging.error\<close> and returns \<open>None\<close>; when a log file was
  given and can be opened and written, it logs the failure to the log file and with
  \<^verbatim>\<open>logging.error\<close> and returns \<open>None\<close>.  When the log file cannot be opened or written,
  the exception of that leaves \<open>shell_out\<close>, and nothing is logged after the report to
  Sentry.  In no case does \<open>shell_out\<close> raise \<^verbatim>\<open>CalledProcessError\<close>.
\<close>

theorem shell_out_nonzero:
  assumes "proc w (tr @ [Log DEBUG ''Running command %r'' (words_of cmd)]) cmd = Exited rc out"
    and "rc \<noteq> 0"
  shows "((truthy logfile \<longrightarrow>
            fs_append w
              (tr @ [Log DEBUG ''Running command %r'' (words_of cmd), Run cmd] @
                 (if sentry_sdk w then [SentryCapture CalledProcessError] else []))
              (text_of logfile) = None) \<longrightarrow>
          shell_out w cmd logfile tr =
            (Inr None,
             tr @ [Log DEBUG ''Running command %r'' (words_of cmd), Run cmd] @
               (if sentry_sdk w then [SentryCapture CalledProcessError] else []) @
               (if truthy logfile
                then [LogFile (text_of logfile)
                        (clock w (tr @ [Log DEBUG ''Running command %r'' (words_of cmd)])) cmd False out,
                      Log ERROR ''Command failed (see %s at %s)''
                        [text_of logfile,
                         clock w (tr @ [Log DEBUG ''Running command %r'' (words_of cmd)])]]
                else [Log ERROR ''Command failed with output %r'' [out]]))) \<and>
         (\<forall>err. truthy logfile \<and>
            fs_append w
              (tr @ [Log DEBUG ''Running command %r'' (words_of cmd), Run cmd] @
                 (if sentry_sdk w then [SentryCapture CalledProcessError] else []))
              (text_of logfile) = Some err \<longrightarrow>
          shell_out w cmd logfile tr =
            (Inl (os_exn err),
             tr @ [Log DEBUG ''Running command %r'' (words_of cmd), Run cmd] @
               (if sentry_sdk w then [SentryCapture CalledProcessError] else []))) \<and>
         fst (shell_out w cmd logfile tr) \<noteq> Inl CalledProcessError"
proof -
  let ?tr1 = "tr @ [Log DEBUG ''Running command %r'' (words_of cmd), Run cmd] @
                 (if sentry_sdk w then [SentryCapture CalledProcessError] else [])"
  have not_cpe: "os_exn err \<noteq> CalledProcessError" for err by (cases err) simp_all
  show ?thesis
    using assms
    by (cases "sentry_sdk w"; cases "truthy logfile"; cases "fs_append w ?tr1 (text_of logfile)")
       (simp_all add: shell_out_def append_to_log_def prog_defs not_cpe)
qed

theorem shell_out_nonzero_witness:
  "proc fetch_fails_world [Log DEBUG ''Running command %r'' [''git'', ''-C'', ''/srv/cpython'', ''fetch'']]
     (Argv [''git'', ''-C'', ''/srv/cpython'', ''fetch'']) =
     Exited 128 ''fatal: unable to access the remote'' \<and>
   shell_out fetch_fails_world (Argv [''git'', ''-C'', ''/srv/cpython'', ''fetch''])
     (Some ''/var/log/docsbuild/cpython.log'') [] =
     (Inr None,
      [Log DEBUG ''Running command %r'' [''git'', ''-C'', ''/srv/cpython'', ''fetch''],
       Run (Argv [''git'', ''-C'', ''/srv/cpython'', ''fetch'']),
       LogFile ''/var/log/docsbuild/cpython.log'' ''2020-01-01 00:00:00''
         (Argv [''git'', ''-C'', ''/srv/cpython'', ''fetch'']) False
         ''fatal: unable to access the remote'',
       Log ERROR ''Command failed (see %s at %s)''
         [''/var/log/docsbuild/cpython.log'', ''2020-01-01 00:00:00'']]) \<and>
   proc no_log_directory_world [Log DEBUG ''Running command %r'' [''make'', ''autobuild-stable'']]
     (Argv [''make'', ''autobuild-stable'']) = Exited 2 ''make: *** [autobuild-stable] Error 2'' \<and>
   shell_out no_log_directory_world (Argv [''make'', ''autobuild-stable''])
     (Some ''/var/log/docsbuild/cpython-en-3.8.log'') [] =
     (Inl FileNotFoundError,
      [Log DEBUG ''Running command %r'' [''make'', ''autobuild-stable''],
       Run (Argv [''make'', ''autobuild-stable''])])"
proof -
  have h: "proc fetch_fails_world
       ([] @ [Log DEBUG ''Running command %r'' (words_of (Argv [''git'', ''-C'', ''/srv/cpython'', ''fetch'']))])
       (Argv [''git'', ''-C'', ''/srv/cpython'', ''fetch'']) =
     Exited 128 ''fatal: unable to access the remote''"
    by (simp add: fetch_fails_world_def calm_world_def words_of_def)
  have n: "(128 :: int) \<noteq> 0" by simp
  have s: "\<not> sentry_sdk fetch_fails_world"
    and c: "clock fetch_fails_world t = ''2020-01-01 00:00:00''"
    and a: "fs_append fetch_fails_world t p = None" for t p
    by (simp_all add: fetch_fails_world_def calm_world_def)
  have h': "proc no_log_directory_world
       ([] @ [Log DEBUG ''Running command %r'' (words_of (Argv [''make'', ''autobuild-stable'']))])
       (Argv [''make'', ''autobuild-stable'']) = Exited 2 ''make: *** [autobuild-stable] Error 2''"
    by (simp add: no_log_directory_world_def make_fails_world_def calm_world_def words_of_def)
  have n': "(2 :: int) \<noteq> 0" by simp
  have s': "\<not> sentry_sdk no_log_directory_world"
    and a': "fs_append no_log_directory_world t p = Some NoSuchFile" for t p
    by (simp_all add: no_log_directory_world_def make_fails_world_def calm_world_def)
  from shell_out_nonzero [OF h n, of "Some ''/var/log/docsbuild/cpython.log''"] h s c a
  have first: "shell_out fetch_fails_world (Argv [''git'', ''-C'', ''/srv/cpython'', ''fetch''])
     (Some ''/var/log/docsbuild/cpython.log'') [] =
     (Inr None,
      [Log DEBUG ''Running command %r'' [''git'', ''-C'', ''/srv/cpython'', ''fetch''],
       Run (Argv [''git'', ''-C'', ''/srv/cpython'', ''fetch'']),
       LogFile ''/var/log/docsbuild/cpython.log'' ''2020-01-01 00:00:00''
         (Argv [''git'', ''-C'', ''/srv/cpython'', ''fetch'']) False
         ''fatal: unable to access the remote'',
       Log ERROR ''Command failed (see %s at %s)''
         [''/var/log/docsbuild/cpython.log'', ''2020-01-01 00:00:00'']])"
    by (simp add: words_of_def truthy_def text_of_def)
  from shell_out_nonzero [OF h' n', of "Some ''/var/log/docsbuild/cpython-en-3.8.log''"] s' a'
  have second: "shell_out no_log_directory_world (Argv [''make'', ''autobuild-stable''])
     (Some ''/var/log/docsbuild/cpython-en-3.8.log'') [] =
     (Inl FileNotFoundError,
      [Log DEBUG ''Running command %r'' [''make'', ''autobuild-stable''],
       Run (Argv [''make'', ''autobuild-stable''])])"
    by (simp add: words_of_def truthy_def text_of_def)
  from h h' first second show ?thesis by (simp add: words_of_def)
qed

text \<open>The claim as written, that \<open>shell_out\<close> does not raise when the command exits with a
  status other than 0, fails where the log file cannot be opened: \<^verbatim>\<open>make\<close> exits with
  status 2, the directory of the log file does not exist, and \<open>shell_out\<close> raises
  \<^verbatim>\<open>FileNotFoundError\<close>.\<close>

theorem shell_out_log_unwritable_counterexample:
  "proc no_log_directory_world [Log DEBUG ''Running command %r'' [''make'', ''autobuild-stable'']]
     (Argv [''make'', ''autobuild-stable'']) = Exited 2 ''make: *** [autobuild-stable] Error 2'' \<and>
   fst (shell_out no_log_directory_world (Argv [''make'', ''autobuild-stable''])
          (Some ''/var/log/docsbuild/cpython-en-3.8.log'') []) = Inl FileNotFoundError \<and>
   fst (shell_out no_log_directory_world (Argv [''make'', ''autobuild-stable''])
          (Some ''/var/log/docsbuild/cpython-en-3.8.log'') []) \<noteq> Inr None"
  by code_simp

text \<open>The exceptions that \<open>shell_out\<close> raises are those of a program that could not be
  started and of a log file that could not be written: \<^verbatim>\<open>OSError\<close> or a subclass of it,
  never \<^verbatim>\<open>CalledProcessError\<close> or \<^verbatim>\<open>AssertionError\<close>.\<close>

lemma os_exn_distinct [simp]:
  "os_exn err \<noteq> CalledProcessError" "os_exn err \<noteq> AssertionError"
  by (cases err; simp)+

lemma append_to_log_cases:
  "(\<exists>err. append_to_log w path now cmd ok out tr = (Inl (os_exn err), tr)) \<or>
   append_to_log w path now cmd ok out tr = (Inr (), tr @ [LogFile path now cmd ok out])"
  by (cases "fs_append w tr path") (auto simp: append_to_log_def prog_defs)

lemma shell_out_cases:
  "(\<exists>err tr'. shell_out w cmd logfile tr = (Inl (os_exn err), tr')) \<or>
   (\<exists>r tr'. shell_out w cmd logfile tr = (Inr r, tr'))"
proof (cases "proc w (tr @ [Log DEBUG ''Running command %r'' (words_of cmd)]) cmd")
  case (NotStarted err)
  then show ?thesis by (auto simp: shell_out_def prog_defs)
next
  case (Exited rc out)
  let ?now = "clock w (tr @ [Log DEBUG ''Running command %r'' (words_of cmd)])"
  show ?thesis
  proof (cases "truthy logfile")
    case False
    with Exited show ?thesis by (simp add: shell_out_def prog_defs)
  next
    case True
    show ?thesis
    proof (cases "rc = 0")
      case zero: True
      from append_to_log_cases [of w "text_of logfile" ?now cmd True out
          "tr @ [Log DEBUG ''Running command %r'' (words_of cmd), Run cmd]"]
      show ?thesis using Exited True zero
        by (auto simp: shell_out_def prog_defs)
    next
      case nonzero: False
      from append_to_log_cases [of w "text_of logfile" ?now cmd False out
          "tr @ [Log DEBUG ''Running command %r'' (words_of cmd), Run cmd] @
             (if sentry_sdk w then [SentryCapture CalledProcessError] else [])"]
      show ?thesis using Exited True nonzero
        by (auto simp: shell_out_def prog_defs)
    qed
  qed
qed

lemma shell_out_raises: "shell_out w cmd logfile tr = (Inl e, tr') \<Longrightarrow> \<exists>err. e = os_exn err"
  using shell_out_cases [of w cmd logfile tr] by auto

lemma shell_out_stmt_raises:
  "shell_out_stmt w cmd logfile tr = (Inl e, tr') \<Longrightarrow> \<exists>err. e = os_exn err"
  using shell_out_cases [of w cmd logfile tr]
  by (auto simp: shell_out_stmt_def prog_defs)

subsection \<open>git\_clone\<close>

text \<open>The update path raises \<^verbatim>\<open>AssertionError\<close> when the directory has no \<open>.git\<close>; otherwise
  it can only raise the \<^verbatim>\<open>OSError\<close> (or subclass) of a program that could not be started, which the
  handler of \<open>git_clone\<close> does not catch.\<close>

lemma git_update_raises:
  assumes "git_update w directory branch tr = (Inl e, tr')"
  shows "(\<exists>err. e = os_exn err) \<or>
         (e = AssertionError \<and> \<not> path_isdir w tr (path_join directory [''.git'']))"
proof (cases "path_isdir w tr (path_join directory [''.git''])")
  case False
  with assms show ?thesis by (simp add: git_update_def prog_defs)
next
  case True
  with assms have "seq (shell_out_stmt w (Argv [''git'', ''-C'', directory, ''fetch'']) None)
           (do_if (truthy branch)
              (seq (shell_out_stmt w (Argv [''git'', ''-C'', directory, ''checkout'', text_of branch]) None)
                 (shell_out_stmt w
                    (Argv [''git'', ''-C'', directory, ''reset'', ''--hard'', ''origin/'' @ text_of branch])
                    None))) tr = (Inl e, tr')"
    by (simp add: git_update_def bnd_def observe_def)
  then have "\<exists>err. e = os_exn err"
    by (cases "truthy branch")
       (auto dest!: seq_Inl dest: shell_out_stmt_raises simp: do_if_def ret_def)
  then show ?thesis by simp
qed

text \<open>So, in a directory with a \<open>.git\<close>, \<open>git_clone\<close> is the update path and nothing else,
  whatever the exit status of its commands: the fresh clone is never made.\<close>

lemma git_clone_update_only:
  assumes "path_isdir w (tr @ [Log INFO ''Updating repository %s in %s'' [repository, directory]])
             (path_join directory [''.git''])"
  shows "git_clone w repository directory branch tr =
         git_update w directory branch
           (tr @ [Log INFO ''Updating repository %s in %s'' [repository, directory]])"
proof -
  let ?tr1 = "tr @ [Log INFO ''Updating repository %s in %s'' [repository, directory]]"
  obtain r tr' where res: "git_update w directory branch ?tr1 = (r, tr')"
    by (cases "git_update w directory branch ?tr1")
  show ?thesis
  proof (cases r)
    case (Inl e)
    with res assms git_update_raises [of w directory branch ?tr1 e tr']
    obtain err where "e = os_exn err" by auto
    with res Inl show ?thesis
      by (simp add: git_clone_def seq_def bnd_def emit_def try_except_def)
  next
    case (Inr u)
    with res show ?thesis
      by (simp add: git_clone_def seq_def bnd_def emit_def try_except_def)
  qed
qed

text \<open>
  Claim C3 (the code differs).  Where \<^verbatim>\<open>git fetch\<close> exits with status 128 in an existing
  repository, \<open>git_clone\<close> logs the failure, goes on with checkout and reset, and returns:
  no directory is removed and nothing is cloned.  Where the directory is no repository
  and \<^verbatim>\<open>git clone\<close> exits with status 128, \<open>git_clone\<close> logs the failure, goes on with the
  checkout, and returns: nothing is raised.
\<close>

theorem git_clone_swallows_failures:
  "git_clone fetch_fails_world ''https://github.com/python/cpython.git''
     ''/srv/docsbuild/3.8/cpython-en'' (Some ''3.8'') [] =
   (Inr (),
    [Log INFO ''Updating repository %s in %s''
       [''https://github.com/python/cpython.git'', ''/srv/docsbuild/3.8/cpython-en''],
     Log DEBUG ''Running command %r'' [''git'', ''-C'', ''/srv/docsbuild/3.8/cpython-en'', ''fetch''],
     Run (Argv [''git'', ''-C'', ''/srv/docsbuild/3.8/cpython-en'', ''fetch'']),
     Log ERROR ''Command failed with output %r'' [''fatal: unable to access the remote''],
     Log DEBUG ''Running command %r''
       [''git'', ''-C'', ''/srv/docsbuild/3.8/cpython-en'', ''checkout'', ''3.8''],
     Run (Argv [''git'', ''-C'', ''/srv/docsbuild/3.8/cpython-en'', ''checkout'', ''3.8'']),
     Log DEBUG ''Running command %r''
       [''git'', ''-C'', ''/srv/docsbuild/3.8/cpython-en'', ''reset'', ''--hard'', ''origin/3.8''],
     Run (Argv [''git'', ''-C'', ''/srv/docsbuild/3.8/cpython-en'', ''reset'', ''--hard'',
                ''origin/3.8''])]) \<and>
   git_clone clone_fails_world ''https://github.com/python/cpython.git''
     ''/srv/docsbuild/3.8/cpython-en'' (Some ''3.8'') [] =
   (Inr (),
    [Log INFO ''Updating repository %s in %s''
       [''https://github.com/python/cpython.git'', ''/srv/docsbuild/3.8/cpython-en''],
     Log INFO ''Cloning %s into %s''
       [''https://github.com/python/cpython.git'', ''/srv/docsbuild/3.8/cpython-en''],
     Makedirs ''/srv/docsbuild/3.8/cpython-en'',
     Log DEBUG ''Running command %r''
       [''git'', ''clone'', ''--depth=1'', ''--no-single-branch'',
        ''https://github.com/python/cpython.git'', ''/srv/docsbuild/3.8/cpython-en''],
     Run (Argv [''git'', ''clone'', ''--depth=1'', ''--no-single-branch'',
                ''https://github.com/python/cpython.git'', ''/srv/docsbuild/3.8/cpython-en'']),
     Log ERROR ''Command failed with output %r'' [''fatal: repository not found''],
     Log DEBUG ''Running command %r''
       [''git'', ''-C'', ''/srv/docsbuild/3.8/cpython-en'', ''checkout'', ''3.8''],
     Run (Argv [''git'', ''-C'', ''/srv/docsbuild/3.8/cpython-en'', ''checkout'', ''3.8''])])"
  by code_simp

subsection \<open>translation\_branch\<close>

lemma py_index_empty: "py_index [] i = Inl IndexError"
  by (simp add: py_index_def)

lemma locate_nearest_version_empty:
  "locate_nearest_version [] t =
     Inl (case version_to_tuple t of Inl e \<Rightarrow> e | Inr tt \<Rightarrow> IndexError)"
  by (simp add: locate_nearest_version_def py_index_empty split: sum.splits)

text \<open>
  Claim C8 (amended).  Neither function has a check for the empty list or a condition of
  its own for a translation without numeric branches.  When the listing of the remote
  branches has no line that matches the numeric pattern, \<open>translation_branch\<close> calls
  \<open>locate_nearest_version\<close> with the empty list.  With an empty list, both list indexings
  of \<open>locate_nearest_version\<close> raise \<^verbatim>\<open>IndexError\<close>, the second one inside the handler of the
  first, so it raises \<^verbatim>\<open>IndexError\<close> (or the \<^verbatim>\<open>ValueError\<close> of a target that is no version);
  that exception leaves \<open>translation_branch\<close>, which names no branch.
\<close>

theorem translation_branch_no_numeric_branch:
  assumes "git_clone w locale_repo locale_clone_dir None tr = (Inr (), tr1)"
    and "shell_out w (Argv [''git'', ''-C'', locale_clone_dir, ''branch'', ''-r'']) None tr1 =
           (Inr (Some remote_branches), tr2)"
    and "list_all (\<lambda>line. \<not> matches_version_branch line)
           (split_on (CHR ''\<newline>'') remote_branches)"
  shows "translation_branch w locale_repo locale_clone_dir needed_version tr =
           (Inl (case version_to_tuple needed_version of Inl e \<Rightarrow> e | Inr tt \<Rightarrow> IndexError), tr2) \<and>
         locate_nearest_version [] needed_version =
           Inl (case version_to_tuple needed_version of Inl e \<Rightarrow> e | Inr tt \<Rightarrow> IndexError)"
proof -
  have "filter matches_version_branch (split_on (CHR ''\<newline>'') remote_branches) = []"
    using assms(3) by (simp add: list_all_iff filter_empty_conv)
  then have "numeric_branches remote_branches = []" by (simp add: numeric_branches_def)
  then show ?thesis using assms(1,2)
    by (simp add: translation_branch_def seq_def bnd_def from_result_def raise_def
        locate_nearest_version_empty)
qed

theorem translation_branch_no_numeric_branch_witness:
  "list_all (\<lambda>line. \<not> matches_version_branch line)
     (split_on (CHR ''\<newline>'') ''  origin/HEAD -> origin/master\<newline>  origin/master\<newline>'') \<and>
   translation_branch no_numeric_branch_world ''https://github.com/python/python-docs-fr.git''
     ''/srv/docsbuild/3.8/locale/fr/LC_MESSAGES'' ''3.8'' [] =
   (Inl IndexError,
    [Log INFO ''Updating repository %s in %s''
       [''https://github.com/python/python-docs-fr.git'', ''/srv/docsbuild/3.8/locale/fr/LC_MESSAGES''],
     Log DEBUG ''Running command %r''
       [''git'', ''-C'', ''/srv/docsbuild/3.8/locale/fr/LC_MESSAGES'', ''fetch''],
     Run (Argv [''git'', ''-C'', ''/srv/docsbuild/3.8/locale/fr/LC_MESSAGES'', ''fetch'']),
     Log DEBUG ''Running command %r''
       [''git'', ''-C'', ''/srv/docsbuild/3.8/locale/fr/LC_MESSAGES'', ''branch'', ''-r''],
     Run (Argv [''git'', ''-C'', ''/srv/docsbuild/3.8/locale/fr/LC_MESSAGES'', ''branch'', ''-r''])]) \<and>
   locate_nearest_version [] ''3.8'' = Inl IndexError"
proof -
  let ?tr1 = "[Log INFO ''Updating repository %s in %s''
       [''https://github.com/python/python-docs-fr.git'', ''/srv/docsbuild/3.8/locale/fr/LC_MESSAGES''],
     Log DEBUG ''Running command %r''
       [''git'', ''-C'', ''/srv/docsbuild/3.8/locale/fr/LC_MESSAGES'', ''fetch''],
     Run (Argv [''git'', ''-C'', ''/srv/docsbuild/3.8/locale/fr/LC_MESSAGES'', ''fetch''])]"
  let ?tr2 = "?tr1 @ [Log DEBUG ''Running command %r''
       [''git'', ''-C'', ''/srv/docsbuild/3.8/locale/fr/LC_MESSAGES'', ''branch'', ''-r''],
     Run (Argv [''git'', ''-C'', ''/srv/docsbuild/3.8/locale/fr/LC_MESSAGES'', ''branch'', ''-r''])]"
  have g: "git_clone no_numeric_branch_world ''https://github.com/python/python-docs-fr.git''
      ''/srv/docsbuild/3.8/locale/fr/LC_MESSAGES'' None [] = (Inr (), ?tr1)"
    by code_simp
  have s: "shell_out no_numeric_branch_world
      (Argv [''git'', ''-C'', ''/srv/docsbuild/3.8/locale/fr/LC_MESSAGES'', ''branch'', ''-r'']) None ?tr1 =
      (Inr (Some ''  origin/HEAD -> origin/master\<newline>  origin/master\<newline>''), ?tr2)"
    by code_simp
  have l: "list_all (\<lambda>line. \<not> matches_version_branch line)
     (split_on (CHR ''\<newline>'') ''  origin/HEAD -> origin/master\<newline>  origin/master\<newline>'')"
    by code_simp
  have v: "version_to_tuple ''3.8'' = Inr [3, 8]" by code_simp
  from translation_branch_no_numeric_branch [OF g s l, of "''3.8''"] v l
  show ?thesis by simp
qed

text \<open>The claim as written, that \<open>locate_nearest_version\<close> is not called with an empty list
  and that the condition is an explicit one, fails for a translation repository whose
  remote branches are \<^verbatim>\<open>origin/HEAD\<close> and \<^verbatim>\<open>origin/master\<close>: no line of the listing matches, the
  result of \<open>translation_branch\<close> is the result of \<open>locate_nearest_version\<close> on the empty
  list, and that is the \<^verbatim>\<open>IndexError\<close> of indexing an empty list.\<close>

theorem translation_branch_empty_list_counterexample:
  "fst (shell_out no_numeric_branch_world
          (Argv [''git'', ''-C'', ''/srv/docsbuild/3.8/locale/fr/LC_MESSAGES'', ''branch'', ''-r'']) None
          (snd (git_clone no_numeric_branch_world ''https://github.com/python/python-docs-fr.git''
                  ''/srv/docsbuild/3.8/locale/fr/LC_MESSAGES'' None []))) =
     Inr (Some ''  origin/HEAD -> origin/master\<newline>  origin/master\<newline>'') \<and>
   numeric_branches ''  origin/HEAD -> origin/master\<newline>  origin/master\<newline>'' = [] \<and>
   fst (translation_branch no_numeric_branch_world ''https://github.com/python/python-docs-fr.git''
          ''/srv/docsbuild/3.8/locale/fr/LC_MESSAGES'' ''3.8'' []) =
     locate_nearest_version
       (numeric_branches ''  origin/HEAD -> origin/master\<newline>  origin/master\<newline>'') ''3.8'' \<and>
   fst (translation_branch no_numeric_branch_world ''https://github.com/python/python-docs-fr.git''
          ''/srv/docsbuild/3.8/locale/fr/LC_MESSAGES'' ''3.8'' []) = Inl IndexError \<and>
   py_index ([] :: int list list) (- 1) = Inl IndexError"
  by code_simp

section \<open>Publishing and the purge of the CDN (claims C5 and C10)\<close>

lemma purge_requests_append [simp]:
  "purge_requests (xs @ ys) = purge_requests xs @ purge_requests ys"
  by (simp add: purge_requests_def)

lemma purge_requests_shell_out:
  "purge_requests (snd (shell_out w cmd logfile tr)) = purge_requests tr @ curl_request (Run cmd)"
  by (cases "proc w (tr @ [Log DEBUG ''Running command %r'' (words_of cmd)]) cmd")
     (simp_all add: shell_out_def append_to_log_def prog_defs purge_requests_def split: option.split)

lemma invalidate_skipped:
  assumes "changed = [] \<or> skip"
  shows "invalidate w version language skip www_root target changed tr =
     (Inr (), tr @ [Log INFO ''%s files changed'' [py_str (int (length changed))],
                    Log INFO ''Publishing done for version: %s, language: %s'' [version, language]])"
  using assms by (auto simp: invalidate_def prog_defs)

lemma invalidate_purges:
  assumes "changed \<noteq> []" "\<not> skip"
    and "proc w (tr @ [Log INFO ''%s files changed'' [py_str (int (length changed))],
                        Log DEBUG ''Running command %r'' [''find'', ''-L'', www_root, ''-samefile'', target]])
           (Argv [''find'', ''-L'', www_root, ''-samefile'', target]) = Exited 0 found"
  shows "purge_requests (snd (invalidate w version language skip www_root target changed tr)) =
         purge_requests tr @ [purge_command (to_purge (alias_prefixes www_root found) changed)]"
proof -
  let ?tr1 = "tr @ [Log INFO ''%s files changed'' [py_str (int (length changed))]]"
  let ?find = "Argv [''find'', ''-L'', www_root, ''-samefile'', target]"
  let ?tr2 = "?tr1 @ [Log DEBUG ''Running command %r'' [''find'', ''-L'', www_root, ''-samefile'', target],
                      Run ?find]"
  let ?cmd = "purge_command (to_purge (alias_prefixes www_root found) changed)"
  have f: "shell_out w ?find None ?tr1 = (Inr (Some found), ?tr2)"
    using assms(3) by (simp add: shell_out_def prog_defs words_of_def truthy_def)
  obtain r tr3 where c: "shell_out w ?cmd None (?tr2 @ [Log INFO ''Running CDN purge'' []]) = (r, tr3)"
    by (cases "shell_out w ?cmd None (?tr2 @ [Log INFO ''Running CDN purge'' []])")
  have p3: "purge_requests tr3 = purge_requests tr @ [?cmd]"
    using purge_requests_shell_out [of w ?cmd None "?tr2 @ [Log INFO ''Running CDN purge'' []]"] c
    by (simp add: purge_requests_def purge_command_def)
  show ?thesis
    using assms(1,2) f c p3
    by (cases r) (simp_all add: invalidate_def purge_cdn_def shell_out_stmt_def prog_defs
        purge_requests_def)
qed

lemma set_to_purge:
  "set (to_purge prefixes changed) =
     set prefixes \<union> {prefix @ p |prefix p. prefix \<in> set prefixes \<and> p \<in> set changed}"
  by (auto simp: to_purge_def)

lemma length_concat_const:
  "length (concat (map (\<lambda>prefix. map (f prefix) changed) prefixes)) = length prefixes * length changed"
  by (induction prefixes) simp_all

lemma length_to_purge:
  "length (to_purge prefixes changed) = length prefixes + length prefixes * length changed"
  by (simp add: to_purge_def length_concat_const)

lemma append_eq_take: "p @ c = q @ d \<Longrightarrow> length p \<le> length q \<Longrightarrow> take (length p) q = p"
  by (metis append_eq_append_conv_if append_eq_conv_conj)

lemma distinct_to_purge:
  assumes dp: "distinct prefixes" and dc: "distinct changed" and ne: "[] \<notin> set changed"
    and pf: "\<forall>p\<in>set prefixes. \<forall>q\<in>set prefixes. take (length p) q = p \<longrightarrow> p = q"
  shows "distinct (to_purge prefixes changed)"
proof -
  have same: "p = q" if "p \<in> set prefixes" "q \<in> set prefixes" "p @ c = q @ d" for p q c d
  proof (cases "length p \<le> length q")
    case True
    with that(3) have "take (length p) q = p" by (rule append_eq_take)
    with pf that(1,2) show ?thesis by blast
  next
    case False
    then have "length q \<le> length p" by simp
    with that(3) [symmetric] have "take (length q) p = q" by (rule append_eq_take)
    with pf that(1,2) show ?thesis by blast
  qed
  have inner: "distinct (map (\<lambda>p. prefix @ p) changed)" for prefix
    using dc by (simp add: distinct_map inj_on_def)
  have disjoint: "set prefixes \<inter> {prefix @ p |prefix p. prefix \<in> set prefixes \<and> p \<in> set changed} = {}"
  proof (rule ccontr)
    assume "\<not> ?thesis"
    then obtain q p c where "q \<in> set prefixes" "p \<in> set prefixes" "c \<in> set changed" "q = p @ c"
      by blast
    then have "p @ c = q @ []" by simp
    from same [OF \<open>p \<in> set prefixes\<close> \<open>q \<in> set prefixes\<close> this] \<open>q = p @ c\<close> have "c = []" by simp
    with ne \<open>c \<in> set changed\<close> show False by simp
  qed
  have rest: "distinct (concat (map (\<lambda>prefix. map (\<lambda>p. prefix @ p) changed) ps))"
    if "distinct ps" "set ps \<subseteq> set prefixes" for ps
    using that
  proof (induction ps)
    case Nil
    show ?case by simp
  next
    case (Cons a ps)
    have "set (map (\<lambda>p. a @ p) changed) \<inter>
          set (concat (map (\<lambda>prefix. map (\<lambda>p. prefix @ p) changed) ps)) = {}"
    proof (rule ccontr)
      assume "\<not> ?thesis"
      then obtain c q d where "c \<in> set changed" "q \<in> set ps" "d \<in> set changed" "a @ c = q @ d"
        by auto
      with same [of a q c d] Cons.prems have "a = q" by auto
      with \<open>q \<in> set ps\<close> Cons.prems(1) show False by simp
    qed
    with Cons inner [of a] show ?case by simp
  qed
  have "distinct (concat (map (\<lambda>prefix. map (\<lambda>p. prefix @ p) changed) prefixes))"
    using rest [of prefixes] dp by simp
  moreover have "set (concat (map (\<lambda>prefix. map (\<lambda>p. prefix @ p) changed) prefixes)) =
      {prefix @ p |prefix p. prefix \<in> set prefixes \<and> p \<in> set changed}"
    by auto
  ultimately show ?thesis using dp disjoint by (simp add: to_purge_def)
qed


lemma shell_out_extends:
  "\<exists>evs. snd (shell_out w cmd logfile tr) =
      tr @ [Log DEBUG ''Running command %r'' (words_of cmd), Run cmd] @ evs"
  by (cases "proc w (tr @ [Log DEBUG ''Running command %r'' (words_of cmd)]) cmd")
     (simp_all add: shell_out_def append_to_log_def prog_defs split: option.split)

lemma shell_out_stmt_snd: "snd (shell_out_stmt w cmd logfile tr) = snd (shell_out w cmd logfile tr)"
  by (cases "shell_out w cmd logfile tr" rule: prod.exhaust [case_names Pair])
     (simp add: shell_out_stmt_def prog_defs split: sum.splits)

lemma invalidate_runs_find:
  assumes "changed \<noteq> []" "\<not> skip"
  shows "Run (Argv [''find'', ''-L'', www_root, ''-samefile'', target])
           \<in> set (snd (invalidate w version language skip www_root target changed tr))"
proof -
  let ?tr1 = "tr @ [Log INFO ''%s files changed'' [py_str (int (length changed))]]"
  let ?find = "Argv [''find'', ''-L'', www_root, ''-samefile'', target]"
  obtain evs where e: "snd (shell_out w ?find None ?tr1) =
      ?tr1 @ [Log DEBUG ''Running command %r'' (words_of ?find), Run ?find] @ evs"
    using shell_out_extends [of w ?find None ?tr1] by blast
  obtain r tr2 where f: "shell_out w ?find None ?tr1 = (r, tr2)"
    by (cases "shell_out w ?find None ?tr1")
  with e have in2: "Run ?find \<in> set tr2" by simp
  show ?thesis
  proof (cases r)
    case (Inl err)
    with f in2 assms show ?thesis by (simp add: invalidate_def purge_cdn_def prog_defs)
  next
    case (Inr found)
    show ?thesis
    proof (cases found)
      case None
      with Inr f in2 assms show ?thesis by (simp add: invalidate_def purge_cdn_def prog_defs)
    next
      case (Some found_text)
      let ?cmd = "purge_command (to_purge (alias_prefixes www_root found_text) changed)"
      let ?tr3 = "tr2 @ [Log INFO ''Running CDN purge'' []]"
      obtain evs' where "snd (shell_out w ?cmd None ?tr3) =
          ?tr3 @ [Log DEBUG ''Running command %r'' (words_of ?cmd), Run ?cmd] @ evs'"
        using shell_out_extends [of w ?cmd None ?tr3] by blast
      then have in4: "Run ?find \<in> set (snd (shell_out_stmt w ?cmd None ?tr3))"
        using in2 by (simp add: shell_out_stmt_snd)
      obtain r' tr4 where c: "shell_out_stmt w ?cmd None ?tr3 = (r', tr4)"
        by (cases "shell_out_stmt w ?cmd None ?tr3")
      with in4 have "Run ?find \<in> set tr4" by simp
      with Some Inr f c assms show ?thesis
        by (cases r') (simp_all add: invalidate_def purge_cdn_def prog_defs)
    qed
  qed
qed

lemma publish_files_nonquick:
  assumes "publish_files w checkout target grp False tr = (Inr changed, tr')"
  shows "\<exists>changed0 names. fs_listdir w tr' (path_join target [''archives'']) = Inr names \<and>
           changed = changed0 @ [''archives/''] @ map (\<lambda>fn. ''archives/'' @ fn) names"
proof -
  from bnd_Inr [OF assms [unfolded publish_files_def]] obtain changed0 tr1 where
    "seq (copy_html w checkout target grp False)
       (if \<not> False
        then seq (copy_dist w checkout target grp)
               (bnd (os_listdir w (path_join target [''archives''])) (\<lambda>names.
                  ret (changed0 @ [''archives/''] @ map (\<lambda>fn. ''archives/'' @ fn) names)))
        else ret changed0) tr1 = (Inr changed, tr')"
    by blast
  then have rest: "seq (copy_html w checkout target grp False)
       (seq (copy_dist w checkout target grp)
               (bnd (os_listdir w (path_join target [''archives''])) (\<lambda>names.
                  ret (changed0 @ [''archives/''] @ map (\<lambda>fn. ''archives/'' @ fn) names)))) tr1 =
       (Inr changed, tr')"
    by (simp only: not_False_eq_True if_True)
  from seq_Inr [OF rest] obtain tr2 where
    rest2: "seq (copy_dist w checkout target grp)
               (bnd (os_listdir w (path_join target [''archives''])) (\<lambda>names.
                  ret (changed0 @ [''archives/''] @ map (\<lambda>fn. ''archives/'' @ fn) names))) tr2 =
           (Inr changed, tr')"
    by blast
  from seq_Inr [OF rest2] obtain tr3 where
    rest3: "bnd (os_listdir w (path_join target [''archives''])) (\<lambda>names.
        ret (changed0 @ [''archives/''] @ map (\<lambda>fn. ''archives/'' @ fn) names)) tr3 = (Inr changed, tr')"
    by blast
  from bnd_Inr [OF rest3] obtain names tr4 where l: "os_listdir w (path_join target [''archives'']) tr3 = (Inr names, tr4)"
    and r: "ret (changed0 @ [''archives/''] @ map (\<lambda>fn. ''archives/'' @ fn) names) tr4 = (Inr changed, tr')"
    by blast
  from r have c: "changed = changed0 @ [''archives/''] @ map (\<lambda>fn. ''archives/'' @ fn) names"
    and t: "tr' = tr4" by (simp_all add: ret_def)
  from l have "fs_listdir w tr3 (path_join target [''archives'']) = Inr names \<and> tr4 = tr3"
    by (cases "fs_listdir w tr3 (path_join target [''archives''])")
       (simp_all add: os_listdir_def prog_defs)
  with c t show ?thesis by blast
qed

lemma changed_of_result:
  assumes "changed_of w build_root version language grp quick www_root tr = (Inr (target, changed), tr')"
  shows "\<exists>tr1. publish_files w (path_join build_root [version, ''cpython-'' @ language]) target grp quick tr1 =
           (Inr changed, tr')"
proof -
  from seq_Inr [OF assms [unfolded changed_of_def]] obtain tr0 where
    a: "bnd (prepare_target w www_root version language grp) (\<lambda>target.
        bnd (publish_files w (path_join build_root [version, ''cpython-'' @ language]) target grp quick)
          (\<lambda>changed. ret (target, changed))) tr0 = (Inr (target, changed), tr')"
    by blast
  from bnd_Inr [OF a] obtain t tr1 where
    b: "bnd (publish_files w (path_join build_root [version, ''cpython-'' @ language]) t grp quick)
       (\<lambda>changed. ret (t, changed)) tr1 = (Inr (target, changed), tr')"
    by blast
  from bnd_Inr [OF b] obtain c tr2 where
    "publish_files w (path_join build_root [version, ''cpython-'' @ language]) t grp quick tr1 = (Inr c, tr2)"
    "ret (t, c) tr2 = (Inr (target, changed), tr')"
    by blast
  then show ?thesis by (auto simp: ret_def)
qed

lemma copy_build_to_webroot_after_changed:
  assumes "changed_of w build_root version language grp quick www_root tr = (Inr (target, changed), tr')"
  shows "copy_build_to_webroot w build_root version language grp quick skip www_root tr =
         invalidate w version language skip www_root target changed tr'"
  using assms by (simp add: copy_build_to_webroot_def bnd_def)

text \<open>
  Claim C5, amended.  When the list of changed files is empty or the invalidation is
  disabled, no purge request is made.  Otherwise, when the lookup of the aliases
  (\<^verbatim>\<open>find -L www_root -samefile target\<close>) exits with status 0, exactly one purge request is
  made, and its paths are \<open>to_purge\<close> of the alias prefixes and the changed files: every
  prefix, and every prefix followed by every changed path.  With two prefixes and two
  changed paths these are six paths; they are distinct when the prefixes are distinct and
  none begins with another, and the changed paths are distinct and not empty.
\<close>

theorem invalidate_spec:
  "(changed = [] \<or> skip \<longrightarrow>
      purge_requests (snd (invalidate w version language skip www_root target changed tr)) =
      purge_requests tr) \<and>
   (changed \<noteq> [] \<and> \<not> skip \<and>
    proc w (tr @ [Log INFO ''%s files changed'' [py_str (int (length changed))],
                  Log DEBUG ''Running command %r'' [''find'', ''-L'', www_root, ''-samefile'', target]])
      (Argv [''find'', ''-L'', www_root, ''-samefile'', target]) = Exited 0 found \<longrightarrow>
      purge_requests (snd (invalidate w version language skip www_root target changed tr)) =
      purge_requests tr @ [purge_command (to_purge (alias_prefixes www_root found) changed)]) \<and>
   set (to_purge prefixes changed) =
     set prefixes \<union> {prefix @ p |prefix p. prefix \<in> set prefixes \<and> p \<in> set changed} \<and>
   (length prefixes = 2 \<and> length changed = 2 \<longrightarrow> length (to_purge prefixes changed) = 6) \<and>
   (distinct prefixes \<and> distinct changed \<and> [] \<notin> set changed \<and>
    (\<forall>p\<in>set prefixes. \<forall>q\<in>set prefixes. take (length p) q = p \<longrightarrow> p = q) \<longrightarrow>
      distinct (to_purge prefixes changed))"
proof (intro conjI impI)
  assume "changed = [] \<or> skip"
  then show "purge_requests (snd (invalidate w version language skip www_root target changed tr)) =
      purge_requests tr"
    by (simp add: invalidate_skipped purge_requests_def)
next
  assume "changed \<noteq> [] \<and> \<not> skip \<and>
    proc w (tr @ [Log INFO ''%s files changed'' [py_str (int (length changed))],
                  Log DEBUG ''Running command %r'' [''find'', ''-L'', www_root, ''-samefile'', target]])
      (Argv [''find'', ''-L'', www_root, ''-samefile'', target]) = Exited 0 found"
  then show "purge_requests (snd (invalidate w version language skip www_root target changed tr)) =
      purge_requests tr @ [purge_command (to_purge (alias_prefixes www_root found) changed)]"
    by (intro invalidate_purges) simp_all
next
  show "set (to_purge prefixes changed) =
     set prefixes \<union> {prefix @ p |prefix p. prefix \<in> set prefixes \<and> p \<in> set changed}"
    by (rule set_to_purge)
next
  assume "length prefixes = 2 \<and> length changed = 2"
  then show "length (to_purge prefixes changed) = 6" by (simp add: length_to_purge)
next
  assume "distinct prefixes \<and> distinct changed \<and> [] \<notin> set changed \<and>
    (\<forall>p\<in>set prefixes. \<forall>q\<in>set prefixes. take (length p) q = p \<longrightarrow> p = q)"
  then show "distinct (to_purge prefixes changed)" by (intro distinct_to_purge) simp_all
qed


theorem invalidate_spec_witness:
  "proc aliases_world
     [Log INFO ''%s files changed'' [''2''],
      Log DEBUG ''Running command %r''
        [''find'', ''-L'', ''/srv/docs.python.org'', ''-samefile'', ''/srv/docs.python.org/3.8'']]
     (Argv [''find'', ''-L'', ''/srv/docs.python.org'', ''-samefile'', ''/srv/docs.python.org/3.8'']) =
     Exited 0 ''/srv/docs.python.org/3.8\<newline>/srv/docs.python.org/3\<newline>'' \<and>
   alias_prefixes ''/srv/docs.python.org'' ''/srv/docs.python.org/3.8\<newline>/srv/docs.python.org/3\<newline>'' =
     [''3.8/'', ''3/''] \<and>
   purge_requests (snd (invalidate aliases_world ''3.8'' ''en'' False ''/srv/docs.python.org''
       ''/srv/docs.python.org/3.8'' [''index.html'', ''library/os.html''] [])) =
     [Argv [''curl'', ''-XPURGE'',
        ''https://docs.python.org/{3.8/,3/,3.8/index.html,3.8/library/os.html,3/index.html,3/library/os.html}'']] \<and>
   length (to_purge [''3.8/'', ''3/''] [''index.html'', ''library/os.html'']) = 6 \<and>
   distinct (to_purge [''3.8/'', ''3/''] [''index.html'', ''library/os.html'']) \<and>
   purge_requests (snd (invalidate aliases_world ''3.8'' ''en'' False ''/srv/docs.python.org''
       ''/srv/docs.python.org/3.8'' [] [])) = [] \<and>
   purge_requests (snd (invalidate aliases_world ''3.8'' ''en'' True ''/srv/docs.python.org''
       ''/srv/docs.python.org/3.8'' [''index.html'', ''library/os.html''] [])) = []"
proof -
  let ?find = "Argv [''find'', ''-L'', ''/srv/docs.python.org'', ''-samefile'', ''/srv/docs.python.org/3.8'']"
  let ?found = "''/srv/docs.python.org/3.8\<newline>/srv/docs.python.org/3\<newline>''"
  have two: "py_str (int (length [''index.html'', ''library/os.html''])) = ''2''" by code_simp
  have h: "proc aliases_world
     [Log INFO ''%s files changed'' [''2''],
      Log DEBUG ''Running command %r''
        [''find'', ''-L'', ''/srv/docs.python.org'', ''-samefile'', ''/srv/docs.python.org/3.8'']]
     ?find = Exited 0 ?found"
    by (simp add: aliases_world_def calm_world_def words_of_def)
  have a: "alias_prefixes ''/srv/docs.python.org'' ?found = [''3.8/'', ''3/'']" by code_simp
  have c: "purge_command (to_purge [''3.8/'', ''3/''] [''index.html'', ''library/os.html'']) =
     Argv [''curl'', ''-XPURGE'',
        ''https://docs.python.org/{3.8/,3/,3.8/index.html,3.8/library/os.html,3/index.html,3/library/os.html}'']"
    by code_simp
  have d: "distinct [''3.8/'', ''3/''] \<and> distinct [''index.html'', ''library/os.html''] \<and>
     [] \<notin> set [''index.html'', ''library/os.html''] \<and>
     (\<forall>p\<in>set [''3.8/'', ''3/'']. \<forall>q\<in>set [''3.8/'', ''3/'']. take (length p) q = p \<longrightarrow> p = q)"
    by simp
  note spec = invalidate_spec [where w = aliases_world and tr = "[]" and skip = False
      and changed = "[''index.html'', ''library/os.html'']" and www_root = "''/srv/docs.python.org''"
      and target = "''/srv/docs.python.org/3.8''" and found = ?found
      and prefixes = "[''3.8/'', ''3/'']" and version = "''3.8''" and language = "''en''"]
  have p: "purge_requests (snd (invalidate aliases_world ''3.8'' ''en'' False ''/srv/docs.python.org''
       ''/srv/docs.python.org/3.8'' [''index.html'', ''library/os.html''] [])) =
     [purge_command (to_purge (alias_prefixes ''/srv/docs.python.org'' ?found)
        [''index.html'', ''library/os.html''])]"
    using spec h two by (simp add: purge_requests_def)
  have l: "length (to_purge [''3.8/'', ''3/''] [''index.html'', ''library/os.html'']) = 6"
    using spec by simp
  have dist: "distinct (to_purge [''3.8/'', ''3/''] [''index.html'', ''library/os.html''])"
    using spec d by blast
  have e: "purge_requests (snd (invalidate aliases_world ''3.8'' ''en'' False ''/srv/docs.python.org''
       ''/srv/docs.python.org/3.8'' [] [])) = []"
    using invalidate_spec [where w = aliases_world and tr = "[]" and skip = False
      and changed = "[]" and www_root = "''/srv/docs.python.org''"
      and target = "''/srv/docs.python.org/3.8''" and version = "''3.8''" and language = "''en''"]
    by (simp add: purge_requests_def)
  have k: "purge_requests (snd (invalidate aliases_world ''3.8'' ''en'' True ''/srv/docs.python.org''
       ''/srv/docs.python.org/3.8'' [''index.html'', ''library/os.html''] [])) = []"
    using invalidate_spec [where w = aliases_world and tr = "[]" and skip = True
      and changed = "[''index.html'', ''library/os.html'']" and www_root = "''/srv/docs.python.org''"
      and target = "''/srv/docs.python.org/3.8''" and version = "''3.8''" and language = "''en''"]
    by (simp add: purge_requests_def)
  from h a p c l dist e k show ?thesis by (simp only: simp_thms)
qed

text \<open>
  The claim as stated fails where the lookup of the aliases fails: the list of changed
  files is not empty and the invalidation is not disabled, and no purge request is made
  (\<^verbatim>\<open>prefixes.replace\<close> raises \<^verbatim>\<open>AttributeError\<close> on the \<open>None\<close> that \<open>shell_out\<close> returned).  And where
  one alias prefix begins with another, two of the six paths can be the same.
\<close>

theorem invalidate_find_fails_counterexample:
  "invalidate find_fails_world ''3.8'' ''en'' False ''/srv/docs.python.org''
     ''/srv/docs.python.org/3.8'' [''index.html'', ''library/os.html''] [] =
   (Inl AttributeError,
    [Log INFO ''%s files changed'' [''2''],
     Log DEBUG ''Running command %r''
       [''find'', ''-L'', ''/srv/docs.python.org'', ''-samefile'', ''/srv/docs.python.org/3.8''],
     Run (Argv [''find'', ''-L'', ''/srv/docs.python.org'', ''-samefile'', ''/srv/docs.python.org/3.8'']),
     Log ERROR ''Command failed with output %r'' [''find: File system loop detected'']]) \<and>
   to_purge [''3/'', ''3/library/''] [''library/os.html'', ''os.html''] =
     [''3/'', ''3/library/'', ''3/library/os.html'', ''3/os.html'',
      ''3/library/library/os.html'', ''3/library/os.html'']"
  by code_simp

text \<open>
  Claim C10, amended.  When a publish that is not quick reaches the count of the changed
  files, the list \<^verbatim>\<open>changed\<close> holds \<open>archives/\<close> and, for every name that \<^verbatim>\<open>os.listdir\<close> gave
  for the archives directory of the target, \<open>archives/\<close> followed by that name; so it is not
  empty.  Unless the invalidation is disabled, the lookup of the aliases is then always
  run, and the purge request is made when that lookup exits with status 0.
\<close>

theorem nonquick_publish_spec:
  assumes "changed_of w build_root version language grp False www_root tr =
             (Inr (target, changed), tr')"
  shows "''archives/'' \<in> set changed \<and> changed \<noteq> [] \<and>
     (\<exists>names. fs_listdir w tr' (path_join target [''archives'']) = Inr names \<and>
         (\<forall>fn\<in>set names. ''archives/'' @ fn \<in> set changed)) \<and>
     (\<not> skip \<longrightarrow>
        Run (Argv [''find'', ''-L'', www_root, ''-samefile'', target])
          \<in> set (snd (copy_build_to_webroot w build_root version language grp False skip www_root tr))) \<and>
     (\<not> skip \<and>
      proc w (tr' @ [Log INFO ''%s files changed'' [py_str (int (length changed))],
                     Log DEBUG ''Running command %r'' [''find'', ''-L'', www_root, ''-samefile'', target]])
        (Argv [''find'', ''-L'', www_root, ''-samefile'', target]) = Exited 0 found \<longrightarrow>
        purge_requests
          (snd (copy_build_to_webroot w build_root version language grp False skip www_root tr)) =
        purge_requests tr' @ [purge_command (to_purge (alias_prefixes www_root found) changed)])"
proof -
  obtain tr1 where
    "publish_files w (path_join build_root [version, ''cpython-'' @ language]) target grp False tr1 =
       (Inr changed, tr')"
    using changed_of_result [OF assms] by blast
  from publish_files_nonquick [OF this] obtain changed0 names where
    names: "fs_listdir w tr' (path_join target [''archives'']) = Inr names"
    and changed: "changed = changed0 @ [''archives/''] @ map (\<lambda>fn. ''archives/'' @ fn) names"
    by blast
  have a: "''archives/'' \<in> set changed" and ne: "changed \<noteq> []"
    using changed by simp_all
  have all: "\<forall>fn\<in>set names. ''archives/'' @ fn \<in> set changed"
    using changed by simp
  have rest: "copy_build_to_webroot w build_root version language grp False skip www_root tr =
      invalidate w version language skip www_root target changed tr'"
    by (rule copy_build_to_webroot_after_changed [OF assms])
  have f: "\<not> skip \<longrightarrow>
        Run (Argv [''find'', ''-L'', www_root, ''-samefile'', target])
          \<in> set (snd (copy_build_to_webroot w build_root version language grp False skip www_root tr))"
    unfolding rest using ne by (auto intro: invalidate_runs_find)
  have p: "\<not> skip \<and>
      proc w (tr' @ [Log INFO ''%s files changed'' [py_str (int (length changed))],
                     Log DEBUG ''Running command %r'' [''find'', ''-L'', www_root, ''-samefile'', target]])
        (Argv [''find'', ''-L'', www_root, ''-samefile'', target]) = Exited 0 found \<longrightarrow>
        purge_requests
          (snd (copy_build_to_webroot w build_root version language grp False skip www_root tr)) =
        purge_requests tr' @ [purge_command (to_purge (alias_prefixes www_root found) changed)]"
    unfolding rest using ne by (auto intro!: invalidate_purges)
  from names all have ex: "\<exists>names. fs_listdir w tr' (path_join target [''archives'']) = Inr names \<and>
         (\<forall>fn\<in>set names. ''archives/'' @ fn \<in> set changed)"
    by blast
  from a ne ex f p show ?thesis by (intro conjI)
qed

theorem nonquick_publish_spec_witness:
  "fst (changed_of aliases_world ''/srv/docsbuild'' ''3.8'' ''en'' ''docs'' False
          ''/srv/docs.python.org'' []) =
     Inr (''/srv/docs.python.org/3.8'', [''archives/'', ''archives/python-3.8-docs-html.zip'']) \<and>
   fs_listdir aliases_world
     (snd (changed_of aliases_world ''/srv/docsbuild'' ''3.8'' ''en'' ''docs'' False
             ''/srv/docs.python.org'' []))
     ''/srv/docs.python.org/3.8/archives'' = Inr [''python-3.8-docs-html.zip''] \<and>
   Run (Argv [''find'', ''-L'', ''/srv/docs.python.org'', ''-samefile'', ''/srv/docs.python.org/3.8''])
     \<in> set (snd (copy_build_to_webroot aliases_world ''/srv/docsbuild'' ''3.8'' ''en'' ''docs'' False
                    False ''/srv/docs.python.org'' [])) \<and>
   purge_requests (snd (copy_build_to_webroot aliases_world ''/srv/docsbuild'' ''3.8'' ''en'' ''docs''
                          False False ''/srv/docs.python.org'' [])) =
     [Argv [''curl'', ''-XPURGE'',
        ''https://docs.python.org/{3.8/,3/,3.8/archives/,3.8/archives/python-3.8-docs-html.zip,3/archives/,3/archives/python-3.8-docs-html.zip}'']]"
proof -
  let ?c = "changed_of aliases_world ''/srv/docsbuild'' ''3.8'' ''en'' ''docs'' False
          ''/srv/docs.python.org'' []"
  let ?changed = "[''archives/'', ''archives/python-3.8-docs-html.zip'']"
  let ?found = "''/srv/docs.python.org/3.8\<newline>/srv/docs.python.org/3\<newline>''"
  have v: "fst ?c = Inr (''/srv/docs.python.org/3.8'', ?changed)"
    by code_simp
  then have h: "?c = (Inr (''/srv/docs.python.org/3.8'', ?changed), snd ?c)"
    by (simp add: prod_eq_iff)
  have l: "fs_listdir aliases_world (snd ?c) ''/srv/docs.python.org/3.8/archives'' =
      Inr [''python-3.8-docs-html.zip'']"
    by (simp add: aliases_world_def calm_world_def)
  have q: "proc aliases_world
      (snd ?c @ [Log INFO ''%s files changed'' [py_str (int (length ?changed))],
                 Log DEBUG ''Running command %r''
                   [''find'', ''-L'', ''/srv/docs.python.org'', ''-samefile'', ''/srv/docs.python.org/3.8'']])
      (Argv [''find'', ''-L'', ''/srv/docs.python.org'', ''-samefile'', ''/srv/docs.python.org/3.8'']) =
      Exited 0 ?found"
    by (simp add: aliases_world_def calm_world_def words_of_def)
  have before: "purge_requests (snd ?c) = []" by code_simp
  have c: "purge_command (to_purge (alias_prefixes ''/srv/docs.python.org'' ?found) ?changed) =
     Argv [''curl'', ''-XPURGE'',
        ''https://docs.python.org/{3.8/,3/,3.8/archives/,3.8/archives/python-3.8-docs-html.zip,3/archives/,3/archives/python-3.8-docs-html.zip}'']"
    by code_simp
  note spec = nonquick_publish_spec [OF h, where skip = False and found = ?found]
  have f: "Run (Argv [''find'', ''-L'', ''/srv/docs.python.org'', ''-samefile'', ''/srv/docs.python.org/3.8''])
     \<in> set (snd (copy_build_to_webroot aliases_world ''/srv/docsbuild'' ''3.8'' ''en'' ''docs'' False
                    False ''/srv/docs.python.org'' []))"
    using spec by blast
  have "purge_requests (snd (copy_build_to_webroot aliases_world ''/srv/docsbuild'' ''3.8'' ''en'' ''docs''
                          False False ''/srv/docs.python.org'' [])) =
     purge_requests (snd ?c) @
       [purge_command (to_purge (alias_prefixes ''/srv/docs.python.org'' ?found) ?changed)]"
    using spec q by blast
  then have p: "purge_requests (snd (copy_build_to_webroot aliases_world ''/srv/docsbuild'' ''3.8'' ''en'' ''docs''
                          False False ''/srv/docs.python.org'' [])) =
     [Argv [''curl'', ''-XPURGE'',
        ''https://docs.python.org/{3.8/,3/,3.8/archives/,3.8/archives/python-3.8-docs-html.zip,3/archives/,3/archives/python-3.8-docs-html.zip}'']]"
    by (simp only: before c append_Nil)
  from v l f p show ?thesis by (intro conjI)
qed

text \<open>
  The claim as stated fails where the lookup of the aliases fails: in a publish that is
  not quick and with the invalidation enabled, \<open>copy_build_to_webroot\<close> raises and no purge
  request is made.
\<close>

theorem nonquick_publish_find_fails_counterexample:
  "fst (copy_build_to_webroot find_fails_world ''/srv/docsbuild'' ''3.8'' ''en'' ''docs'' False False
          ''/srv/docs.python.org'' []) = Inl AttributeError \<and>
   purge_requests (snd (copy_build_to_webroot find_fails_world ''/srv/docsbuild'' ''3.8'' ''en''
                          ''docs'' False False ''/srv/docs.python.org'' [])) = []"
  by code_simp

section \<open>The run over the units (claims C7 and C4)\<close>


lemma build_starts_Nil [simp]: "build_starts [] = []"
  by (simp add: build_starts_def)

















































text \<open>
  Claim C4 (the code differs).  Where \<^verbatim>\<open>make\<close> exits with status 2, the failure is written
  to the log file of the unit and logged, \<open>build_one\<close> returns normally, and the unit goes
  on to publish: \<open>copy_build_to_webroot\<close> starts and the files are copied to the web root.
\<close>

theorem failed_build_is_published:
  "fst (build_and_publish make_fails_world example_args ''3.8'' ''3.8'' False ''en'' []) = Inr () \<and>
   LogFile ''/var/log/docsbuild/cpython-en-3.8.log'' ''2020-01-01 00:00:00''
     (make_command ''/srv/docsbuild/3.8/cpython-en'' ''/srv/docsbuild/venv''
        [''-D latex_engine=xelatex'', ''-D latex_elements.inputenc='',
         ''-D latex_elements.fontenc='', ''-q''] False False)
     False ''make: *** [autobuild-stable] Error 2''
     \<in> set (snd (build_and_publish make_fails_world example_args ''3.8'' ''3.8'' False ''en'' [])) \<and>
   Log ERROR ''Command failed (see %s at %s)''
     [''/var/log/docsbuild/cpython-en-3.8.log'', ''2020-01-01 00:00:00'']
     \<in> set (snd (build_and_publish make_fails_world example_args ''3.8'' ''3.8'' False ''en'' [])) \<and>
   Log INFO ''Publishing start for version: %s, language: %s'' [''3.8'', ''en'']
     \<in> set (snd (build_and_publish make_fails_world example_args ''3.8'' ''3.8'' False ''en'' [])) \<and>
   Run (Argv [''rsync'', ''-a'', ''--delete-delay'', ''--filter'', ''P archives/'',
              ''/srv/docsbuild/3.8/cpython-en/Doc/build/html/'', ''/srv/docs.python.org/3.8''])
     \<in> set (snd (build_and_publish make_fails_world example_args ''3.8'' ''3.8'' False ''en'' []))"
  by code_simp

end
